theory Spec2Isabelle
  imports Main
begin

section \<open>Python values\<close>

text \<open>
  The program is \<^verbatim>\<open>client_curses.py\<close>. Its data is dynamically typed, so the model
  has one datatype for the values found in rows (\<open>pyval\<close>), one for the entries of the
  schema tuples (\<open>attr\<close>) and one for schema nodes (\<open>schema\<close>). A dictionary is an
  association list with distinct keys, read with \<open>map_of\<close>. Every exception the code can
  raise is a value of \<open>error\<close>; a function that can raise returns \<open>error + 'a\<close>.

  A \<open>string\<close> is a Python \<^verbatim>\<open>str\<close> whose code points are all below 256: the
  character with code \<open>n\<close> is the code point \<open>n\<close>, and \<open>length\<close> is Python's
  \<^verbatim>\<open>len\<close>.
\<close>

datatype error =
  KeyError | TypeError | AttributeError | IndexError | ValueError | DatabaseError | CursesError

datatype justifier = Str_ljust | Str_rjust | Platform_justify

datatype attr = ANone | AStr string | AInt int | AFun justifier

datatype schema = STuple "attr list" | SDict "(string \<times> schema) list"

datatype pyval = PNone | PStr string | PInt int | PDict "(string \<times> pyval) list"

text \<open>Truth value testing, as \<^verbatim>\<open>or\<close>, \<^verbatim>\<open>not\<close> and \<^verbatim>\<open>if\<close> apply it.\<close>

fun attr_truthy :: "attr \<Rightarrow> bool" where
  "attr_truthy ANone = False"
| "attr_truthy (AStr s) = (s \<noteq> [])"
| "attr_truthy (AInt i) = (i \<noteq> 0)"
| "attr_truthy (AFun f) = True"

fun truthy :: "pyval \<Rightarrow> bool" where
  "truthy PNone = False"
| "truthy (PStr s) = (s \<noteq> [])"
| "truthy (PInt i) = (i \<noteq> 0)"
| "truthy (PDict kvs) = (kvs \<noteq> [])"

text \<open>\<^verbatim>\<open>a or b\<close> on schema attributes.\<close>

definition attr_or :: "attr \<Rightarrow> attr \<Rightarrow> attr" where
  "attr_or a b = (if attr_truthy a then a else b)"

definition py_or :: "pyval \<Rightarrow> pyval \<Rightarrow> pyval" where
  "py_or a b = (if truthy a then a else b)"

definition py_bind :: "error + 'a \<Rightarrow> ('a \<Rightarrow> error + 'b) \<Rightarrow> error + 'b" where
  "py_bind m f = (case m of Inl e \<Rightarrow> Inl e | Inr x \<Rightarrow> f x)"

subsection \<open>Strings\<close>

definition ljust :: "string \<Rightarrow> int \<Rightarrow> string" where
  "ljust s w = s @ replicate (nat (w - int (length s))) CHR '' ''"

definition rjust :: "string \<Rightarrow> int \<Rightarrow> string" where
  "rjust s w = replicate (nat (w - int (length s))) CHR '' '' @ s"

text \<open>
  \<^verbatim>\<open>str.center\<close>: when the padding is odd, the extra space goes to the left exactly
  when the width is odd too (CPython: \<^verbatim>\<open>left = marg/2 + (marg & width & 1)\<close>).
\<close>

definition center :: "string \<Rightarrow> int \<Rightarrow> string" where
  "center s w =
     (let marg = w - int (length s) in
      if marg \<le> 0 then s
      else (let left = marg div 2 + (if odd marg \<and> odd w then 1 else 0)
            in replicate (nat left) CHR '' '' @ s @ replicate (nat (marg - left)) CHR '' ''))"

text \<open>\<^verbatim>\<open>s[:n]\<close> and \<^verbatim>\<open>s[n:]\<close>; a negative index counts from the end.\<close>

definition slice_to :: "'a list \<Rightarrow> int \<Rightarrow> 'a list" where
  "slice_to s n = (if 0 \<le> n then take (nat n) s else take (nat (int (length s) + n)) s)"

definition slice_from :: "'a list \<Rightarrow> int \<Rightarrow> 'a list" where
  "slice_from s n = (if 0 \<le> n then drop (nat n) s else drop (nat (int (length s) + n)) s)"

text \<open>\<^verbatim>\<open>c.isalpha()\<close> and \<^verbatim>\<open>c.isnumeric()\<close> for one code point below 256.\<close>

definition isalpha :: "char \<Rightarrow> bool" where
  "isalpha c =
     (let n = (of_char c :: nat) in
      (65 \<le> n \<and> n \<le> 90) \<or> (97 \<le> n \<and> n \<le> 122) \<or> n = 170 \<or> n = 181 \<or> n = 186 \<or>
      (192 \<le> n \<and> n \<le> 214) \<or> (216 \<le> n \<and> n \<le> 246) \<or> (248 \<le> n \<and> n \<le> 255))"

definition isnumeric :: "char \<Rightarrow> bool" where
  "isnumeric c =
     (let n = (of_char c :: nat) in
      (48 \<le> n \<and> n \<le> 57) \<or> n = 178 \<or> n = 179 \<or> n = 185 \<or> n = 188 \<or> n = 189 \<or> n = 190)"

text \<open>
  \<^verbatim>\<open>str.upper\<close> and \<^verbatim>\<open>str.lower\<close> on the ASCII letters. The editor only ever puts the
  code points \<open>0x20..0x7E\<close> into the command line these are applied to; other code
  points are left as they are.
\<close>

definition upper_char :: "char \<Rightarrow> char" where
  "upper_char c =
     (let n = (of_char c :: nat) in if 97 \<le> n \<and> n \<le> 122 then char_of (n - 32) else c)"

definition lower_char :: "char \<Rightarrow> char" where
  "lower_char c =
     (let n = (of_char c :: nat) in if 65 \<le> n \<and> n \<le> 90 then char_of (n + 32) else c)"

definition upper :: "string \<Rightarrow> string" where
  "upper s = map upper_char s"

definition lower :: "string \<Rightarrow> string" where
  "lower s = map lower_char s"

definition startswith :: "string \<Rightarrow> string \<Rightarrow> bool" where
  "startswith s p = (take (length p) s = p)"

text \<open>\<^verbatim>\<open>s.split(sep)\<close> for a separator of one character.\<close>

fun split :: "char \<Rightarrow> string \<Rightarrow> string list" where
  "split sep [] = [[]]"
| "split sep (c # cs) =
     (if c = sep then [] # split sep cs
      else (case split sep cs of p # ps \<Rightarrow> (c # p) # ps | [] \<Rightarrow> [[c]]))"

text \<open>\<^verbatim>\<open>p in s\<close> for strings: \<open>p\<close> occurs in \<open>s\<close> as a substring.\<close>

fun str_contains :: "string \<Rightarrow> string \<Rightarrow> bool" where
  "str_contains [] p = (p = [])"
| "str_contains (c # cs) p = (startswith (c # cs) p \<or> str_contains cs p)"

text \<open>\<^verbatim>\<open>str(n)\<close> for an integer.\<close>

fun digits :: "nat \<Rightarrow> string" where
  "digits n = (if n < 10 then [char_of (48 + n)] else digits (n div 10) @ [char_of (48 + n mod 10)])"

definition str_int :: "int \<Rightarrow> string" where
  "str_int i = (if i < 0 then CHR ''-'' # digits (nat (- i)) else digits (nat i))"

text \<open>
  \<^verbatim>\<open>str(v)\<close> and \<^verbatim>\<open>repr(v)\<close>. A string is quoted with single quotes by \<open>repr\<close>; the
  escapes Python adds for quotes, backslashes and control characters are not modelled,
  and a mapping is printed as a plain \<^verbatim>\<open>dict\<close>.
\<close>

fun repr :: "pyval \<Rightarrow> string"
  and repr_items :: "(string \<times> pyval) list \<Rightarrow> string" where
  "repr PNone = ''None''"
| "repr (PStr s) = CHR 0x27 # s @ [CHR 0x27]"
| "repr (PInt i) = str_int i"
| "repr (PDict kvs) = CHR ''{'' # repr_items kvs @ ''}''"
| "repr_items [] = []"
| "repr_items ((k, v) # kvs) =
     CHR 0x27 # k @ [CHR 0x27] @ '': '' @ repr v @ (if kvs = [] then [] else '', '' @ repr_items kvs)"

definition str :: "pyval \<Rightarrow> string" where
  "str v = (case v of PStr s \<Rightarrow> s | _ \<Rightarrow> repr v)"

subsection \<open>Subscripts\<close>

text \<open>\<^verbatim>\<open>v[key]\<close> for a string key on a row value.\<close>

fun getitem :: "pyval \<Rightarrow> string \<Rightarrow> error + pyval" where
  "getitem (PDict kvs) k = (case map_of kvs k of None \<Rightarrow> Inl KeyError | Some v \<Rightarrow> Inr v)"
| "getitem v k = Inl TypeError"

text \<open>\<^verbatim>\<open>xs[i]\<close> on a list or tuple, with an index that is not negative.\<close>

definition list_index :: "'a list \<Rightarrow> nat \<Rightarrow> error + 'a" where
  "list_index xs i = (if i < length xs then Inr (xs ! i) else Inl IndexError)"

section \<open>The platform justifier\<close>

text \<open>
  \<^verbatim>\<open>platform_justify(str, length)\<close>. The arguments are whatever the caller passes: the
  text is a row value and the length a schema attribute. \<^verbatim>\<open>len\<close> of an integer is a
  TypeError, and a mapping of two or more keys has no key \<open>-1\<close>.
\<close>

fun platform_justify :: "pyval \<Rightarrow> attr \<Rightarrow> error + string" where
  "platform_justify v l =
     (if l \<noteq> AInt 3 then Inl ValueError
      else if \<not> truthy v then Inr ''   ''
      else (case v of
              PStr s \<Rightarrow>
                if length s = 1 then Inr ('' '' @ s @ '' '')
                else if isalpha (last s) \<and> isnumeric (hd s) then Inr (rjust s 3)
                else Inr (ljust s 3)
            | PInt i \<Rightarrow> Inl TypeError
            | PDict kvs \<Rightarrow>
                if length kvs = 1 then Inr ('' '' @ str v @ '' '') else Inl KeyError
            | PNone \<Rightarrow> Inr ''   ''))"

section \<open>Schema resolution\<close>

text \<open>
  \<^verbatim>\<open>current_schema[level]\<close> for a path segment, \<^verbatim>\<open>current_schema[i]\<close> for an integer
  and \<^verbatim>\<open>len(current_schema)\<close>. The keys of a mapping are strings, so an integer is
  never one of them.
\<close>

fun schema_getitem :: "schema \<Rightarrow> string \<Rightarrow> error + schema" where
  "schema_getitem (SDict kvs) k = (case map_of kvs k of None \<Rightarrow> Inl KeyError | Some s \<Rightarrow> Inr s)"
| "schema_getitem (STuple t) k = Inl TypeError"

fun schema_index :: "schema \<Rightarrow> nat \<Rightarrow> error + attr" where
  "schema_index (STuple t) i = list_index t i"
| "schema_index (SDict kvs) i = Inl KeyError"

fun schema_len :: "schema \<Rightarrow> nat" where
  "schema_len (STuple t) = length t"
| "schema_len (SDict kvs) = length kvs"

text \<open>
  \<^verbatim>\<open>(current_schema.get("_",()) + (None,None,None,None))[:4]\<close>. A tuple has no
  \<^verbatim>\<open>get\<close> (AttributeError), and a mapping stored under \<^verbatim>\<open>"_"\<close> cannot be added to a
  tuple (TypeError).
\<close>

definition inherited_defaults :: "schema \<Rightarrow> error + attr list" where
  "inherited_defaults cs =
     (case cs of
        STuple t \<Rightarrow> Inl AttributeError
      | SDict kvs \<Rightarrow>
          (case map_of kvs ''_'' of
             None \<Rightarrow> Inr (take 4 ([] @ replicate 4 ANone))
           | Some (STuple d) \<Rightarrow> Inr (take 4 (d @ replicate 4 ANone))
           | Some (SDict m) \<Rightarrow> Inl TypeError))"

text \<open>\<^verbatim>\<open>[a or b for a,b in zip(inherited, defaults)]\<close>.\<close>

definition inherit :: "attr list \<Rightarrow> attr list \<Rightarrow> attr list" where
  "inherit inh d = map (\<lambda>(a, b). attr_or a b) (zip inh d)"

text \<open>
  The loop over the segments of a column in the header pass (lines 64 to 66). The four
  inherited values are kept as the list the comprehension builds; its entries 0 to 3
  are \<^verbatim>\<open>inherited_name\<close>, \<^verbatim>\<open>inherited_pad\<close>, \<^verbatim>\<open>inherited_justify\<close> and
  \<^verbatim>\<open>inherited_color\<close>.
\<close>

fun walk_schema :: "attr list \<Rightarrow> schema \<Rightarrow> string list \<Rightarrow> error + (attr list \<times> schema)" where
  "walk_schema inh cs [] = Inr (inh, cs)"
| "walk_schema inh cs (level # levels) =
     (case inherited_defaults cs of
        Inl e \<Rightarrow> Inl e
      | Inr d \<Rightarrow>
          (case schema_getitem cs level of
             Inl e \<Rightarrow> Inl e
           | Inr cs' \<Rightarrow> walk_schema (inherit inh d) cs' levels))"

text \<open>Lines 62 to 72: the name, width and colour of a column header.\<close>

definition resolve_header :: "schema \<Rightarrow> string \<Rightarrow> error + (attr \<times> attr \<times> attr)" where
  "resolve_header sch column =
     py_bind (walk_schema [ANone, ANone, ANone, ANone] sch (split CHR ''/'' column)) (\<lambda>(inh, cs).
     py_bind (schema_index cs 0) (\<lambda>name.
     py_bind (schema_index cs 1) (\<lambda>pad.
     py_bind (if 4 \<le> schema_len cs then schema_index cs 3 else Inr (AInt 0)) (\<lambda>color_scheme.
       Inr (attr_or name (inh ! 0), attr_or pad (inh ! 1),
            attr_or (attr_or color_scheme (inh ! 3)) (AInt 0))))))"

text \<open>
  Line 74, \<^verbatim>\<open>name[:pad].center(pad)\<close>: the name has to be a string and the width an
  integer (\<^verbatim>\<open>center(None)\<close> is a TypeError, as is a subscript on None).
\<close>

definition header_text :: "attr \<Rightarrow> attr \<Rightarrow> error + string" where
  "header_text name pad =
     (case name of
        AStr s \<Rightarrow> (case pad of AInt n \<Rightarrow> Inr (center (slice_to s n) n) | _ \<Rightarrow> Inl TypeError)
      | _ \<Rightarrow> Inl TypeError)"

definition header_cell :: "schema \<Rightarrow> string \<Rightarrow> error + (string \<times> attr)" where
  "header_cell sch column =
     py_bind (resolve_header sch column) (\<lambda>(name, pad, color_scheme).
     py_bind (header_text name pad) (\<lambda>text. Inr (text, AInt 0)))"

text \<open>
  The loop over the segments in the body pass (lines 83 to 86), which walks the row and
  the schema together: the defaults are read first, then the cell, then the schema.
\<close>

fun walk_row ::
  "attr list \<Rightarrow> pyval \<Rightarrow> schema \<Rightarrow> string list \<Rightarrow> error + (attr list \<times> pyval \<times> schema)" where
  "walk_row inh cell cs [] = Inr (inh, cell, cs)"
| "walk_row inh cell cs (level # levels) =
     (case inherited_defaults cs of
        Inl e \<Rightarrow> Inl e
      | Inr d \<Rightarrow>
          (case getitem cell level of
             Inl e \<Rightarrow> Inl e
           | Inr cell' \<Rightarrow>
               (case schema_getitem cs level of
                  Inl e \<Rightarrow> Inl e
                | Inr cs' \<Rightarrow> walk_row (inherit inh d) cell' cs' levels)))"

text \<open>Lines 80 to 94: the cell of a row under a column, with its width, justifier and colour.\<close>

definition resolve_body :: "schema \<Rightarrow> pyval \<Rightarrow> string \<Rightarrow> error + (pyval \<times> attr \<times> attr \<times> attr)" where
  "resolve_body sch row display_col =
     py_bind (walk_row [ANone, ANone, ANone, ANone] row sch (split CHR ''/'' display_col))
       (\<lambda>(inh, current_cell, cs).
     py_bind (schema_index cs 1) (\<lambda>pad.
     py_bind (if 3 \<le> schema_len cs then schema_index cs 2 else Inr ANone) (\<lambda>justify.
     py_bind (if 4 \<le> schema_len cs then schema_index cs 3 else Inr (AInt 0)) (\<lambda>color_scheme.
       Inr (current_cell, attr_or pad (inh ! 1), attr_or justify (inh ! 2),
            attr_or (attr_or color_scheme (inh ! 3)) (AInt 0))))))"

section \<open>Cell formatting\<close>

text \<open>
  \<^verbatim>\<open>str.ljust(text, pad)\<close> and \<^verbatim>\<open>str.rjust(text, pad)\<close> called through the class: the
  text has to be a string and the width an integer.
\<close>

definition str_method :: "(string \<Rightarrow> int \<Rightarrow> string) \<Rightarrow> pyval \<Rightarrow> attr \<Rightarrow> error + string" where
  "str_method f text pad =
     (case text of
        PStr s \<Rightarrow> (case pad of AInt n \<Rightarrow> Inr (f s n) | _ \<Rightarrow> Inl TypeError)
      | _ \<Rightarrow> Inl TypeError)"

text \<open>Line 100, \<^verbatim>\<open>(justify or str.ljust)(final_row_text, pad)\<close>; a string or a number is not callable.\<close>

definition call_justify :: "attr \<Rightarrow> pyval \<Rightarrow> attr \<Rightarrow> error + string" where
  "call_justify justify text pad =
     (case attr_or justify (AFun Str_ljust) of
        AFun Str_ljust \<Rightarrow> str_method ljust text pad
      | AFun Str_rjust \<Rightarrow> str_method rjust text pad
      | AFun Platform_justify \<Rightarrow> platform_justify text pad
      | _ \<Rightarrow> Inl TypeError)"

text \<open>
  \<^verbatim>\<open>substitute_fn(x, y, z)\<close>: the row, the column and the pair of the cell's text and
  colour; it returns a pair of a text (any row value) and a colour.
\<close>

type_synonym hook = "pyval \<Rightarrow> string \<Rightarrow> string \<times> attr \<Rightarrow> error + (pyval \<times> attr)"

text \<open>Lines 80 to 102: one cell of one line.\<close>

definition format_cell :: "hook \<Rightarrow> schema \<Rightarrow> pyval \<Rightarrow> string \<Rightarrow> error + (string \<times> attr)" where
  "format_cell hook sch row display_col =
     py_bind (resolve_body sch row display_col) (\<lambda>(current_cell, pad, justify, color_scheme).
     py_bind (hook row display_col (str current_cell, color_scheme)) (\<lambda>(text, final_row_color).
     py_bind (call_justify justify (if current_cell = PNone then PStr [] else text) pad)
       (\<lambda>final_row_text. Inr (final_row_text, final_row_color))))"

fun header_cells :: "schema \<Rightarrow> string list \<Rightarrow> error + (string \<times> attr) list" where
  "header_cells sch [] = Inr []"
| "header_cells sch (column # columns) =
     (case header_cell sch column of
        Inl e \<Rightarrow> Inl e
      | Inr c \<Rightarrow> (case header_cells sch columns of Inl e \<Rightarrow> Inl e | Inr cs \<Rightarrow> Inr (c # cs)))"

fun render_line :: "hook \<Rightarrow> schema \<Rightarrow> pyval \<Rightarrow> string list \<Rightarrow> error + (string \<times> attr) list" where
  "render_line hook sch row [] = Inr []"
| "render_line hook sch row (display_col # cols) =
     (case format_cell hook sch row display_col of
        Inl e \<Rightarrow> Inl e
      | Inr c \<Rightarrow> (case render_line hook sch row cols of Inl e \<Rightarrow> Inl e | Inr cs \<Rightarrow> Inr (c # cs)))"

fun render_lines ::
  "hook \<Rightarrow> schema \<Rightarrow> string list \<Rightarrow> pyval list \<Rightarrow> error + (string \<times> attr) list list" where
  "render_lines hook sch fmt [] = Inr []"
| "render_lines hook sch fmt (row # rest) =
     (case render_line hook sch row fmt of
        Inl e \<Rightarrow> Inl e
      | Inr l \<Rightarrow> (case render_lines hook sch fmt rest of Inl e \<Rightarrow> Inl e | Inr ls \<Rightarrow> Inr (l # ls)))"

section \<open>Buffers\<close>

text \<open>
  A date is a year, a month and a day; an instant (\<^verbatim>\<open>datetime\<close>) is a number of
  microseconds. \<open>Data\<close> is the class of that name, its field \<^verbatim>\<open>data\<close> being \<open>rows\<close>
  here. The three subclasses of \<^verbatim>\<open>Buffer\<close> are told apart by \<open>kind\<close>, which also holds
  the parameters the subclass stores (\<^verbatim>\<open>dt_start\<close>, \<^verbatim>\<open>duration\<close> and
  \<^verbatim>\<open>location_code\<close>; \<^verbatim>\<open>date_start\<close> and \<^verbatim>\<open>service_code\<close>).
\<close>

type_synonym pydate = "int \<times> int \<times> int"

datatype buffer_kind = TextBuffer | BoardBuffer int int string | ServiceBuffer pydate string

record Data =
  schema :: schema
  rows :: "pyval list"

record buffer =
  kind :: buffer_kind
  data :: Data
  format :: "string list"
  title :: string
  line_offset :: int
  lines :: "(string \<times> attr) list list"
  col_names :: "(string \<times> attr) list"
  last_refreshed :: int
  headers_outstanding :: bool
  body_outstanding :: bool

text \<open>
  What the program takes from outside: the two database queries of \<^verbatim>\<open>get_board\<close> with
  the shaping of their rows, and the date functions of the \<^verbatim>\<open>datetime\<close> module.
\<close>

record env =
  board_rows :: "int \<Rightarrow> int \<Rightarrow> string \<Rightarrow> error + pyval list"
  service_rows :: "pydate \<Rightarrow> string \<Rightarrow> error + pyval list"
  strptime :: "string \<Rightarrow> error + pydate"
  format_datetime :: "int \<Rightarrow> string"
  format_date :: "pydate \<Rightarrow> string"

text \<open>
  \<^verbatim>\<open>Buffer.__init__\<close>, given the clock's reading. The source starts \<^verbatim>\<open>data\<close> as an
  empty list, which every subclass replaces before it is read.
\<close>

definition Buffer_init :: "buffer_kind \<Rightarrow> int \<Rightarrow> buffer" where
  "Buffer_init k now =
     \<lparr>kind = k, data = \<lparr>schema = SDict [], rows = []\<rparr>, format = [], title = [],
      line_offset = 0, lines = [], col_names = [], last_refreshed = now,
      headers_outstanding = False, body_outstanding = False\<rparr>"

definition invalidate :: "buffer \<Rightarrow> buffer" where
  "invalidate b = b\<lparr>headers_outstanding := True, body_outstanding := True\<rparr>"

subsection \<open>The hooks\<close>

definition Buffer_substitute_fn :: hook where
  "Buffer_substitute_fn x y z = Inr (PStr (fst z), snd z)"

definition getitem2 :: "pyval \<Rightarrow> string \<Rightarrow> string \<Rightarrow> error + pyval" where
  "getitem2 x a b = py_bind (getitem x a) (\<lambda>v. getitem v b)"

text \<open>\<^verbatim>\<open>x["arrival_actual"]["ut"] or x["departure_actual"]["ut"]\<close> as a condition.\<close>

definition has_actual :: "pyval \<Rightarrow> error + bool" where
  "has_actual x =
     py_bind (getitem2 x ''arrival_actual'' ''ut'') (\<lambda>a.
       if truthy a then Inr True
       else py_bind (getitem2 x ''departure_actual'' ''ut'') (\<lambda>d. Inr (truthy d)))"

text \<open>
  Lines 192 to 199, which lines 346 to 353 repeat. \<^verbatim>\<open>in "EL"\<close> is the substring
  test, a TypeError when the status is not a string.
\<close>

definition variation_cell :: "pyval \<Rightarrow> error + (pyval \<times> attr)" where
  "variation_cell x =
     py_bind (getitem x ''trust_departure'') (\<lambda>departure.
     py_bind (getitem departure ''variation_status'') (\<lambda>departure_status.
     py_bind (if \<not> truthy departure_status then getitem x ''trust_arrival'' else Inr departure)
       (\<lambda>movement.
     py_bind (getitem movement ''variation_status'') (\<lambda>status.
       (case status of
          PStr s \<Rightarrow>
            if str_contains ''EL'' s then
              py_bind (getitem movement ''variation'') (\<lambda>variation.
                Inr (PStr (str variation @ s), AInt 5))
            else Inr (PStr [], AInt 5)
        | _ \<Rightarrow> Inl TypeError)))))"

text \<open>\<^verbatim>\<open>x["trust_arrival"]["platform"] or x["trust_departure"]["platform"]\<close> as a condition.\<close>

definition platform_known :: "pyval \<Rightarrow> error + bool" where
  "platform_known x =
     py_bind (getitem2 x ''trust_arrival'' ''platform'') (\<lambda>a.
       if truthy a then Inr True
       else py_bind (getitem2 x ''trust_departure'' ''platform'') (\<lambda>d. Inr (truthy d)))"

text \<open>\<^verbatim>\<open>x["trust_departure"]["platform"] or x["trust_arrival"]["platform"]\<close> as a value.\<close>

definition live_platform :: "pyval \<Rightarrow> error + pyval" where
  "live_platform x =
     py_bind (getitem2 x ''trust_departure'' ''platform'') (\<lambda>d.
       if truthy d then Inr d else getitem2 x ''trust_arrival'' ''platform'')"

text \<open>\<^verbatim>\<open>"Q" in v\<close>: a character of a string, a key of a mapping.\<close>

definition contains_Q :: "pyval \<Rightarrow> error + bool" where
  "contains_Q v =
     (case v of
        PStr s \<Rightarrow> Inr (CHR ''Q'' \<in> set s)
      | PDict kvs \<Rightarrow> Inr (''Q'' \<in> set (map fst kvs))
      | _ \<Rightarrow> Inl TypeError)"

definition same_tiploc :: "pyval \<Rightarrow> string \<Rightarrow> error + bool" where
  "same_tiploc x place =
     py_bind (getitem2 x ''here'' ''tiploc'') (\<lambda>h.
     py_bind (getitem2 x place ''tiploc'') (\<lambda>t. Inr (h = t)))"

definition BoardBuffer_substitute_fn :: hook where
  "BoardBuffer_substitute_fn x y z =
     py_bind (if startswith y ''origin'' then same_tiploc x ''origin'' else Inr False) (\<lambda>c1.
     if c1 then Inr (PStr (fst z), AInt 5) else
     py_bind (if startswith y ''destination'' then same_tiploc x ''destination'' else Inr False) (\<lambda>c2.
     if c2 then Inr (PStr (fst z), AInt 5) else
     py_bind (if y = ''service/current_variation'' then has_actual x else Inr False) (\<lambda>c3.
     if c3 then variation_cell x else
     py_bind (if y = ''service/signalling_id''
              then py_bind (getitem2 x ''service'' ''actual_signalling_id'') (\<lambda>s. Inr (truthy s))
              else Inr False) (\<lambda>c4.
     if c4 then py_bind (getitem2 x ''service'' ''actual_signalling_id'') (\<lambda>s. Inr (s, AInt 3)) else
     py_bind (if y = ''platform'' then platform_known x else Inr False) (\<lambda>c5.
     if c5 then py_bind (live_platform x) (\<lambda>p. Inr (p, AInt 3)) else
     py_bind (if y = ''service/operating_characteristics''
              then py_bind (getitem2 x ''service'' ''operating_characteristics'') contains_Q
              else Inr False) (\<lambda>c6.
     if c6 then Inr (PStr (fst z), AInt 7) else Inr (PStr (fst z), snd z)))))))"

definition ServiceBuffer_substitute_fn :: hook where
  "ServiceBuffer_substitute_fn x y z =
     py_bind (if y = ''service/current_variation'' then has_actual x else Inr False) (\<lambda>c1.
     if c1 then variation_cell x
     else if y = ''service/current_variation'' then Inr (PStr [], AInt 0) else
     py_bind (if y = ''platform'' then platform_known x else Inr False) (\<lambda>c2.
     if c2 then py_bind (live_platform x) (\<lambda>p. Inr (p, AInt 3))
     else Inr (PStr (fst z), snd z)))"

definition substitute_fn :: "buffer_kind \<Rightarrow> hook" where
  "substitute_fn k =
     (case k of
        TextBuffer \<Rightarrow> Buffer_substitute_fn
      | BoardBuffer dt_start duration location_code \<Rightarrow> BoardBuffer_substitute_fn
      | ServiceBuffer date_start service_code \<Rightarrow> ServiceBuffer_substitute_fn)"

subsection \<open>Rebuilding, scrolling, refreshing\<close>

text \<open>
  \<^verbatim>\<open>renew\<close>, for any hook: the header cells, then the lines, then \<^verbatim>\<open>invalidate\<close>. An
  exception leaves no buffer.
\<close>

definition renew_with :: "hook \<Rightarrow> buffer \<Rightarrow> error + buffer" where
  "renew_with hook b =
     py_bind (header_cells (schema (data b)) (format b)) (\<lambda>names.
     py_bind (render_lines hook (schema (data b)) (format b) (rows (data b))) (\<lambda>ls.
       Inr (invalidate (b\<lparr>col_names := names, lines := ls\<rparr>))))"

definition renew :: "buffer \<Rightarrow> error + buffer" where
  "renew b = renew_with (substitute_fn (kind b)) b"

definition scroll_up :: "int \<Rightarrow> buffer \<Rightarrow> buffer" where
  "scroll_up n b = invalidate (b\<lparr>line_offset := max (line_offset b - n) 0\<rparr>)"

definition scroll_down :: "int \<Rightarrow> buffer \<Rightarrow> buffer" where
  "scroll_down n b = invalidate (b\<lparr>line_offset := min (line_offset b + n) (int (length (lines b)))\<rparr>)"

definition position_summary :: "buffer \<Rightarrow> int \<Rightarrow> string" where
  "position_summary b dim_lines =
     ''['' @ str_int (line_offset b + 1) @ ''..''
       @ str_int (min (line_offset b + dim_lines) (int (length (lines b))))
       @ ''/'' @ str_int (int (length (lines b))) @ '']''"

text \<open>\<^verbatim>\<open>render_headers\<close> and \<^verbatim>\<open>render\<close> as far as the buffer goes; the drawing is left out.\<close>

definition render_headers :: "buffer \<Rightarrow> buffer" where
  "render_headers b = b\<lparr>headers_outstanding := False\<rparr>"

definition render :: "buffer \<Rightarrow> buffer" where
  "render b = b\<lparr>body_outstanding := False\<rparr>"

subsection \<open>The live views\<close>

definition time_schema_short :: "(string \<times> schema) list" where
  "time_schema_short = [(''iso'', STuple [ANone, AInt 19]), (''short'', STuple [ANone, AInt 4])]"

definition time_schema :: "(string \<times> schema) list" where
  "time_schema = [(''iso'', STuple [ANone, AInt 19]), (''short'', STuple [ANone, AInt 5])]"

definition location_schema :: "(string \<times> schema) list" where
  "location_schema =
     [(''name'', STuple [ANone, AInt 30]), (''tiploc'', STuple [ANone, AInt 7]),
      (''crs'', STuple [ANone, AInt 3])]"

definition service_node :: schema where
  "service_node = SDict
     [(''uid'', STuple [AStr ''UID'', AInt 6, AFun Str_rjust]),
      (''atoc_code'', STuple [AStr ''o.'', AInt 2]),
      (''power_type'', STuple [AStr ''pw.'', AInt 3]),
      (''category'', STuple [AStr ''c.'', AInt 2]),
      (''signalling_id'', STuple [AStr ''sig.'', AInt 4]),
      (''actual_signalling_id'', STuple [AStr ''rt.s'', AInt 4, ANone, AInt 3]),
      (''current_variation'', STuple [AStr ''v.'', AInt 3, AFun Str_rjust, AInt 3]),
      (''operating_characteristics'', STuple [AStr ''oc.'', AInt 4])]"

text \<open>The schema literal of \<^verbatim>\<open>BoardBuffer.get_board\<close> (lines 228 to 258).\<close>

definition board_schema :: schema where
  "board_schema = SDict
     [(''service'', service_node),
      (''trust_arrival'', SDict [(''platform'', STuple [AStr ''pt.'', AInt 3, AFun Platform_justify])]),
      (''trust_departure'', SDict [(''platform'', STuple [AStr ''pt.'', AInt 3, AFun Platform_justify])]),
      (''platform'', STuple [AStr ''pt.'', AInt 3, AFun Platform_justify]),
      (''arrival_scheduled'', SDict ((''_'', STuple [AStr ''arrival'']) # time_schema)),
      (''departure_scheduled'', SDict ((''_'', STuple [AStr ''departure'']) # time_schema)),
      (''pass_scheduled'', SDict ((''_'', STuple [AStr ''pass'']) # time_schema)),
      (''arrival_actual'', SDict ((''_'', STuple [AStr ''arrival'', ANone, ANone, AInt 3]) # time_schema_short)),
      (''departure_actual'', SDict ((''_'', STuple [AStr ''departure'', ANone, ANone, AInt 3]) # time_schema_short)),
      (''origin'', SDict ((''_'', STuple [AStr ''origin'']) # location_schema)),
      (''destination'', SDict ((''_'', STuple [AStr ''destination'']) # location_schema))]"

text \<open>The schema literal of \<^verbatim>\<open>ServiceBuffer.get_board\<close> (lines 379 to 413).\<close>

definition service_schema :: schema where
  "service_schema = SDict
     [(''service'', service_node),
      (''trust_arrival'', SDict [(''platform'', STuple [AStr ''pt.'', AInt 3, AFun Platform_justify]),
                                 (''source'', STuple [AStr ''source'', AInt 1])]),
      (''trust_departure'', SDict [(''platform'', STuple [AStr ''pt.'', AInt 3, AFun Platform_justify]),
                                   (''source'', STuple [AStr ''source'', AInt 1])]),
      (''platform'', STuple [AStr ''pt.'', AInt 3, AFun Platform_justify]),
      (''activity'', STuple [AStr ''activity'', AInt 12]),
      (''arrival_scheduled'', SDict ((''_'', STuple [AStr ''arrival'']) # time_schema)),
      (''departure_scheduled'', SDict ((''_'', STuple [AStr ''departure'']) # time_schema)),
      (''pass_scheduled'', SDict ((''_'', STuple [AStr ''pass'']) # time_schema)),
      (''arrival_actual'', SDict ((''_'', STuple [AStr ''arrival'', ANone, ANone, AInt 3]) # time_schema_short)),
      (''departure_actual'', SDict ((''_'', STuple [AStr ''departure'', ANone, ANone, AInt 3]) # time_schema_short)),
      (''here'', SDict ((''_'', STuple [AStr ''location'']) # location_schema)),
      (''origin'', SDict ((''_'', STuple [AStr ''origin'']) # location_schema)),
      (''destination'', SDict ((''_'', STuple [AStr ''destination'']) # location_schema))]"

definition board_format :: "string list" where
  "board_format =
     [''service/uid'', ''service/atoc_code'', ''service/category'', ''service/power_type'',
      ''service/operating_characteristics'', ''service/signalling_id'',
      ''arrival_scheduled/short'', ''departure_scheduled/short'', ''pass_scheduled/short'',
      ''platform'', ''service/current_variation'', ''arrival_actual/short'',
      ''departure_actual/short'', ''origin/name'', ''destination/name'']"

definition service_format :: "string list" where
  "service_format =
     [''activity'', ''arrival_scheduled/short'', ''departure_scheduled/short'',
      ''pass_scheduled/short'', ''service/current_variation'', ''arrival_actual/short'',
      ''trust_arrival/source'', ''departure_actual/short'', ''trust_departure/source'',
      ''platform'', ''here/tiploc'', ''here/name'']"

definition BoardBuffer_get_board :: "env \<Rightarrow> int \<Rightarrow> int \<Rightarrow> string \<Rightarrow> error + Data" where
  "BoardBuffer_get_board E starting_datetime duration location =
     py_bind (board_rows E starting_datetime duration location) (\<lambda>ret.
       Inr \<lparr>schema = board_schema, rows = ret\<rparr>)"

definition ServiceBuffer_get_board :: "env \<Rightarrow> pydate \<Rightarrow> string \<Rightarrow> error + Data" where
  "ServiceBuffer_get_board E start_date service_code =
     py_bind (service_rows E start_date service_code) (\<lambda>ret.
       Inr \<lparr>schema = service_schema, rows = ret\<rparr>)"

text \<open>\<^verbatim>\<open>refresh\<close>, as each class defines it.\<close>

definition refresh :: "env \<Rightarrow> buffer \<Rightarrow> error + buffer" where
  "refresh E b =
     (case kind b of
        TextBuffer \<Rightarrow> Inr (invalidate b)
      | BoardBuffer dt_start duration location_code \<Rightarrow>
          py_bind (BoardBuffer_get_board E dt_start duration location_code) (\<lambda>d.
            renew (b\<lparr>title := ''STATION DEPARTURE BOARD ENQUIRY - '' @ location_code @ '' ''
                               @ format_datetime E dt_start @ '' - '' @ str_int duration
                               @ '' MINUTES'',
                     data := d\<rparr>))
      | ServiceBuffer date_start service_code \<Rightarrow>
          py_bind (ServiceBuffer_get_board E date_start service_code) (\<lambda>d.
            renew (b\<lparr>title := ''SERVICE ENQUIRY - '' @ service_code @ '' on ''
                               @ format_date E date_start,
                     data := d\<rparr>)))"

text \<open>
  \<^verbatim>\<open>timedelta.seconds\<close> of a difference of \<open>d\<close> microseconds: the difference is
  normalised to days, seconds in \<open>0..86399\<close> and microseconds, and this is the seconds.
\<close>

definition timedelta_seconds :: "int \<Rightarrow> int" where
  "timedelta_seconds d = (d mod 86400000000) div 1000000"

text \<open>\<^verbatim>\<open>consider_refresh\<close>; \<open>now\<close> and \<open>now'\<close> are the two readings of the clock it takes.\<close>

definition consider_refresh :: "env \<Rightarrow> int \<Rightarrow> int \<Rightarrow> buffer \<Rightarrow> error + buffer" where
  "consider_refresh E now now' b =
     (if timedelta_seconds (now - last_refreshed b) > 30
      then refresh E (b\<lparr>last_refreshed := now'\<rparr>)
      else Inr b)"

definition TextBuffer_init :: "int \<Rightarrow> string \<Rightarrow> Data \<Rightarrow> string list \<Rightarrow> error + buffer" where
  "TextBuffer_init now title' data' format' =
     renew ((Buffer_init TextBuffer now)\<lparr>data := data', format := format', title := title'\<rparr>)"

definition BoardBuffer_init :: "env \<Rightarrow> int \<Rightarrow> int \<Rightarrow> int \<Rightarrow> string \<Rightarrow> error + buffer" where
  "BoardBuffer_init E now dt_start duration location_code =
     refresh E ((Buffer_init (BoardBuffer dt_start duration location_code) now)\<lparr>format := board_format\<rparr>)"

definition ServiceBuffer_init :: "env \<Rightarrow> int \<Rightarrow> pydate \<Rightarrow> string \<Rightarrow> error + buffer" where
  "ServiceBuffer_init E now date_start service_code =
     refresh E ((Buffer_init (ServiceBuffer date_start service_code) now)\<lparr>format := service_format\<rparr>)"

section \<open>The input loop\<close>

text \<open>
  The variables of \<^verbatim>\<open>main\<close> that outlive an iteration; \<open>beeps\<close> counts the calls of
  \<^verbatim>\<open>curses.beep\<close> and \<open>running\<close> turns false at \<^verbatim>\<open>break\<close>.
\<close>

record editor =
  compose :: string
  cursor_pos :: int
  text_entry_mode :: bool
  current_buffer :: buffer
  beeps :: nat
  running :: bool

text \<open>The key codes of the curses library.\<close>

definition KEY_DOWN :: int where "KEY_DOWN = 258"
definition KEY_UP :: int where "KEY_UP = 259"
definition KEY_LEFT :: int where "KEY_LEFT = 260"
definition KEY_RIGHT :: int where "KEY_RIGHT = 261"
definition KEY_BACKSPACE :: int where "KEY_BACKSPACE = 263"
definition KEY_DC :: int where "KEY_DC = 330"
definition KEY_ENTER :: int where "KEY_ENTER = 343"
definition KEY_RESIZE :: int where "KEY_RESIZE = 410"

text \<open>
  Lines 585 to 592; \<open>now\<close> is the clock's reading at line 587 and \<open>now'\<close> the one the
  new buffer's \<^verbatim>\<open>__init__\<close> takes. Ten minutes are 600000000 microseconds.
\<close>

definition submit :: "env \<Rightarrow> int \<Rightarrow> int \<Rightarrow> string \<Rightarrow> buffer \<Rightarrow> error + buffer" where
  "submit E now now' cmd current =
     (if startswith (lower cmd) ''trjd '' then
        py_bind (list_index (split CHR '' '' cmd) 1) (\<lambda>code.
          BoardBuffer_init E now' (now - 600000000) 120 (upper code))
      else if startswith (lower cmd) ''uid '' then
        py_bind (list_index (split CHR '' '' cmd) 1) (\<lambda>code.
        py_bind (list_index (split CHR '' '' cmd) 2) (\<lambda>d.
        py_bind (strptime E d) (\<lambda>start_date.
          ServiceBuffer_init E now' start_date (upper code))))
      else Inr current)"

text \<open>Lines 570 to 602: a key in text entry mode (\<open>0x14A\<close> is 330, \<open>KEY_DC\<close>).\<close>

definition entry_key :: "env \<Rightarrow> int \<Rightarrow> int \<Rightarrow> int \<Rightarrow> int \<Rightarrow> editor \<Rightarrow> error + editor" where
  "entry_key E now now' win_cols k st =
     (if k = KEY_BACKSPACE then
        (if cursor_pos st \<noteq> 0
         then Inr (st\<lparr>compose := slice_to (compose st) (cursor_pos st - 1)
                                  @ slice_from (compose st) (cursor_pos st),
                     cursor_pos := cursor_pos st - 1\<rparr>)
         else Inr st)
      else if k = 330 then
        (if cursor_pos st \<noteq> 0
         then Inr (st\<lparr>compose := slice_to (compose st) (cursor_pos st)
                                  @ slice_from (compose st) (cursor_pos st + 1)\<rparr>)
         else Inr st)
      else if k = KEY_LEFT then Inr (st\<lparr>cursor_pos := max (cursor_pos st - 1) 0\<rparr>)
      else if k = KEY_RIGHT then
        Inr (st\<lparr>cursor_pos := min (cursor_pos st + 1) (int (length (compose st)))\<rparr>)
      else if k = KEY_ENTER \<or> k = 10 then
        py_bind (submit E now now' (compose st) (current_buffer st)) (\<lambda>b.
          Inr (st\<lparr>current_buffer := b, compose := [], cursor_pos := 0, text_entry_mode := False\<rparr>))
      else if 32 \<le> k \<and> k \<le> 126 then
        (if cursor_pos st < win_cols - 1
         then Inr (st\<lparr>compose := slice_to (compose st) (cursor_pos st) @ [char_of k]
                                  @ slice_from (compose st) (cursor_pos st),
                     cursor_pos := cursor_pos st + 1\<rparr>)
         else Inr (st\<lparr>beeps := Suc (beeps st)\<rparr>))
      else Inr st)"

text \<open>Lines 604 to 611: a key in navigation mode (\<open>t\<close> is 116, \<open>:\<close> is 58, \<open>q\<close> is 113).\<close>

definition navigation_key :: "int \<Rightarrow> editor \<Rightarrow> editor" where
  "navigation_key k st =
     (if k = 116 \<or> k = 58 then st\<lparr>text_entry_mode := True\<rparr>
      else if k = 113 then st\<lparr>running := False\<rparr>
      else if k = KEY_DOWN then st\<lparr>current_buffer := scroll_down 1 (current_buffer st)\<rparr>
      else if k = KEY_UP then st\<lparr>current_buffer := scroll_up 1 (current_buffer st)\<rparr>
      else st)"

text \<open>
  Lines 553 to 559, the drawing of the footer in text entry mode. The footer window is
  one line of the terminal's width: \<^verbatim>\<open>addstr(0,0, compose)\<close> raises
  \<^verbatim>\<open>curses.error\<close> when the command line reaches the window's last column, and
  \<^verbatim>\<open>move(0, cursor_pos)\<close> when the cursor is outside the window.
\<close>

definition draw_footer :: "int \<Rightarrow> editor \<Rightarrow> error + unit" where
  "draw_footer win_cols st =
     (if text_entry_mode st
         \<and> (win_cols \<le> int (length (compose st)) \<or> cursor_pos st < 0 \<or> win_cols \<le> cursor_pos st)
      then Inl CursesError else Inr ())"

text \<open>
  One iteration of the loop of \<^verbatim>\<open>main\<close>: the timed refresh, the drawing, then the key
  \<open>k\<close> that \<^verbatim>\<open>getch\<close> returned. \<open>t1\<close> to \<open>t4\<close> are the readings of the clock in the
  order the iteration takes them, and \<open>win_cols\<close> is the width of the terminal, taken
  not to change between iterations. Of the drawing, the footer can fail; the title, the
  headers and the body are taken to fit the terminal. No exception is caught anywhere
  in the program, so \<open>Inl\<close> is the end of \<^verbatim>\<open>main\<close> with that exception.
\<close>

definition main_step :: "env \<Rightarrow> int \<Rightarrow> int \<Rightarrow> int \<Rightarrow> int \<Rightarrow> int \<Rightarrow> int \<Rightarrow> editor \<Rightarrow> error + editor" where
  "main_step E t1 t2 t3 t4 win_cols k st =
     py_bind (consider_refresh E t1 t2 (current_buffer st)) (\<lambda>b.
     py_bind (draw_footer win_cols st) (\<lambda>u.
       let b1 = render (render_headers b);
           b2 = (if k = KEY_RESIZE then invalidate b1 else b1);
           st' = st\<lparr>current_buffer := b2\<rparr>
       in if text_entry_mode st' then entry_key E t3 t4 win_cols k st'
          else Inr (navigation_key k st')))"

text \<open>
  The loop of \<^verbatim>\<open>main\<close> over the keys that \<^verbatim>\<open>getch\<close> returns, one iteration a key,
  while the clock stands at \<open>t\<close>; it stops at \<^verbatim>\<open>break\<close> or when the keys run out.
\<close>

fun main_loop :: "env \<Rightarrow> int \<Rightarrow> int \<Rightarrow> int list \<Rightarrow> editor \<Rightarrow> error + editor" where
  "main_loop E t win_cols [] st = Inr st"
| "main_loop E t win_cols (k # ks) st =
     (if \<not> running st then Inr st
      else (case main_step E t t t t win_cols k st of
              Inl e \<Rightarrow> Inl e
            | Inr st' \<Rightarrow> main_loop E t win_cols ks st'))"

text \<open>The start of \<^verbatim>\<open>main\<close> (lines 517 to 526).\<close>

definition welcome_data :: Data where
  "welcome_data =
     \<lparr>schema = SDict [(''body'', STuple [AStr ''Body'', AInt 4])],
      rows = map (\<lambda>i. PDict [(''body'', PStr (''line '' @ str_int i))]) [1..79]\<rparr>"

definition main_init :: "int \<Rightarrow> error + editor" where
  "main_init now =
     py_bind (TextBuffer_init now ''Welcome to BeryilliumSwallow'' welcome_data [''body'']) (\<lambda>b.
       Inr \<lparr>compose = [], cursor_pos = 0, text_entry_mode = False, current_buffer = b,
            beeps = 0, running = True\<rparr>)"

section \<open>Example values\<close>

text \<open>
  An environment whose queries return no rows and whose date parser rejects every
  string, a text buffer of three empty lines scrolled to the third, and a board view
  of five lines scrolled to the end.
\<close>

definition example_env :: env where
  "example_env =
     \<lparr>board_rows = (\<lambda>dt duration location. Inr []),
      service_rows = (\<lambda>d code. Inr []),
      strptime = (\<lambda>s. Inl ValueError),
      format_datetime = (\<lambda>t. []),
      format_date = (\<lambda>d. [])\<rparr>"

definition three_lines :: buffer where
  "three_lines = (Buffer_init TextBuffer 0)\<lparr>lines := [[], [], []], line_offset := 2\<rparr>"

definition scrolled_board :: buffer where
  "scrolled_board =
     (Buffer_init (BoardBuffer 0 120 ''CDF'') 0)
       \<lparr>format := board_format, lines := [[], [], [], [], []], line_offset := 5\<rparr>"

definition refreshed_board :: buffer where
  "refreshed_board =
     scrolled_board
       \<lparr>title := ''STATION DEPARTURE BOARD ENQUIRY - CDF  - 120 MINUTES'',
        data := \<lparr>schema = board_schema, rows = []\<rparr>,
        col_names :=
          [('' UID  '', AInt 0), (''o.'', AInt 0), (''c.'', AInt 0), (''pw.'', AInt 0),
           (''oc. '', AInt 0), (''sig.'', AInt 0), (''arriv'', AInt 0), (''depar'', AInt 0),
           ('' pass'', AInt 0), (''pt.'', AInt 0), ('' v.'', AInt 0), (''arri'', AInt 0),
           (''depa'', AInt 0), (''            origin            '', AInt 0),
           (''         destination          '', AInt 0)],
        lines := [],
        last_refreshed := 31000000,
        headers_outstanding := True, body_outstanding := True\<rparr>"

text \<open>
  The editor in navigation mode over a buffer of three lines, and the keys typed into
  it in a terminal of 80 columns: \<open>:\<close> to start a command, \<open>x\<close> eighty times, the
  left arrow, and \<open>x\<close> again.
\<close>

definition idle_editor :: editor where
  "idle_editor =
     \<lparr>compose = [], cursor_pos = 0, text_entry_mode = False,
      current_buffer = (Buffer_init TextBuffer 0)\<lparr>lines := [[], [], []]\<rparr>,
      beeps = 0, running = True\<rparr>"

definition overlong_keys :: "int list" where
  "overlong_keys = 58 # replicate 80 120 @ [KEY_LEFT, 120]"



text \<open>
  Rows of the shape \<^verbatim>\<open>get_board\<close> builds (lines 300 to 325): a service due to leave
  at 12:00:00, once with a departure recorded at 12:01:30, one minute late, and once
  with no movement recorded yet.
\<close>

definition time_dict :: "pyval \<Rightarrow> pyval \<Rightarrow> pyval \<Rightarrow> string \<Rightarrow> pyval" where
  "time_dict ut_v iso_v date_v short_v =
     PDict [(''ut'', ut_v), (''iso'', iso_v), (''date'', date_v), (''short'', PStr short_v)]"

definition movement_dict :: "pyval \<Rightarrow> pyval \<Rightarrow> pyval \<Rightarrow> pyval" where
  "movement_dict platform_v status_v variation_v =
     PDict [(''platform'', platform_v), (''line'', PNone), (''route'', PNone),
            (''variation_status'', status_v), (''variation'', variation_v),
            (''direction'', PNone), (''source'', PNone)]"

definition location_dict :: "string \<Rightarrow> string \<Rightarrow> string \<Rightarrow> string \<Rightarrow> pyval" where
  "location_dict tiploc name stanox crs =
     PDict [(''tiploc'', PStr tiploc), (''name'', PStr name), (''stanox'', PStr stanox),
            (''crs'', PStr crs)]"

definition board_row :: "pyval \<Rightarrow> pyval \<Rightarrow> pyval \<Rightarrow> pyval" where
  "board_row departure_actual trust_departure current_variation =
     PDict
      [(''arrival_scheduled'',
          time_dict (PInt 1709294280) (PStr ''2024-03-01T11:58:00'') (PStr ''2024-03-01'') ''1158''),
       (''departure_scheduled'',
          time_dict (PInt 1709294400) (PStr ''2024-03-01T12:00:00'') (PStr ''2024-03-01'') ''1200''),
       (''pass_scheduled'', time_dict PNone PNone PNone []),
       (''arrival_actual'', time_dict PNone PNone PNone []),
       (''departure_actual'', departure_actual),
       (''arrival_public'', PInt 1709294280), (''departure_public'', PInt 1709294400),
       (''platform'', PStr ''2''), (''line'', PNone), (''path'', PNone),
       (''activity'', PStr ''T''), (''engineering_allowance'', PNone),
       (''pathing_allowance'', PNone), (''performance_allowance'', PNone),
       (''trust_arrival'', movement_dict PNone PNone PNone),
       (''trust_departure'', trust_departure),
       (''service'',
          PDict [(''uid'', PStr ''W12345''), (''category'', PStr ''OO''),
                 (''signalling_id'', PStr ''2V41''), (''headcode'', PNone),
                 (''power_type'', PStr ''DMU''), (''timing_load'', PNone), (''speed'', PInt 75),
                 (''operating_characteristics'', PStr []), (''seating_class'', PStr ''S''),
                 (''sleepers'', PNone), (''reservations'', PNone), (''catering'', PNone),
                 (''branding'', PNone), (''uic_code'', PNone), (''atoc_code'', PStr ''AW''),
                 (''date'', PStr ''2024-03-01''), (''actual_signalling_id'', PNone),
                 (''trust_id'', PNone), (''current_variation'', current_variation)]),
       (''here'', location_dict ''CRDFCEN'' ''CARDIFF CENTRAL'' ''78100'' ''CDF''),
       (''origin'', location_dict ''SWANSEA'' ''SWANSEA'' ''77301'' ''SWA''),
       (''destination'', location_dict ''NWPTRTG'' ''NEWPORT'' ''78400'' ''NWP''),
       (''last_location'', PDict [(''tiploc'', PNone), (''name'', PNone), (''stanox'', PNone), (''crs'', PNone)]),
       (''cancellation_location'', PDict [(''tiploc'', PNone), (''name'', PNone), (''stanox'', PNone), (''crs'', PNone)])]"

definition late_row :: pyval where
  "late_row =
     board_row
       (time_dict (PInt 1709294490) (PStr ''2024-03-01T12:01:30'') (PStr ''2024-03-01'')
          (''1201'' @ [CHR 0xBD]))
       (movement_dict (PStr ''2'') (PStr ''L'') (PStr ''1''))
       (PStr ''1L'')"


text \<open>A schema of two interior nodes with their defaults above one leaf, and a row for it.\<close>

definition nested_schema :: "attr list \<Rightarrow> attr list \<Rightarrow> attr list \<Rightarrow> schema" where
  "nested_schema outer inner leaf =
     SDict [(''_'', STuple outer), (''a'', SDict [(''_'', STuple inner), (''x'', STuple leaf)])]"

definition nested_row :: pyval where
  "nested_row = PDict [(''a'', PDict [(''x'', PStr ''v'')])]"

text \<open>The welcome buffer of \<^verbatim>\<open>main\<close> before and after its first \<^verbatim>\<open>renew\<close>.\<close>

definition welcome_start :: buffer where
  "welcome_start =
     (Buffer_init TextBuffer 0)
       \<lparr>data := welcome_data, format := [''body''], title := ''Welcome to BeryilliumSwallow''\<rparr>"

definition welcome_buffer :: buffer where
  "welcome_buffer =
     welcome_start
       \<lparr>col_names := [(''Body'', AInt 0)],
        lines := map (\<lambda>i. [(''line '' @ str_int i, AInt 0)]) [1..79],
        headers_outstanding := True, body_outstanding := True\<rparr>"

section \<open>Properties\<close>

subsection \<open>Sequencing and the frame of a rebuild\<close>

lemma py_bind_Inl: "py_bind (Inl e) f = Inl e"
  by (simp add: py_bind_def)

lemma py_bind_Inr: "py_bind (Inr x) f = f x"
  by (simp add: py_bind_def)

lemma py_bind_eq_Inr: "py_bind m f = Inr y \<longleftrightarrow> (\<exists>x. m = Inr x \<and> f x = Inr y)"
  by (cases m) (simp_all add: py_bind_def)

lemma renew_with_frame:
  assumes "renew_with h b = Inr b'"
  shows "b' = b\<lparr>col_names := col_names b', lines := lines b',
                  headers_outstanding := True, body_outstanding := True\<rparr>"
  using assms by (auto simp: renew_with_def py_bind_eq_Inr invalidate_def)

lemma renew_with_line_offset: "renew_with h b = Inr b' \<Longrightarrow> line_offset b' = line_offset b"
  by (auto simp: renew_with_def py_bind_eq_Inr invalidate_def)

lemma renew_with_last_refreshed: "renew_with h b = Inr b' \<Longrightarrow> last_refreshed b' = last_refreshed b"
  by (auto simp: renew_with_def py_bind_eq_Inr invalidate_def)

lemma refresh_line_offset: "refresh E b = Inr b' \<Longrightarrow> line_offset b' = line_offset b"
  by (auto simp: refresh_def renew_def py_bind_eq_Inr invalidate_def
           dest!: renew_with_line_offset split: buffer_kind.splits)

lemma refresh_last_refreshed: "refresh E b = Inr b' \<Longrightarrow> last_refreshed b' = last_refreshed b"
  by (auto simp: refresh_def renew_def py_bind_eq_Inr invalidate_def
           dest!: renew_with_last_refreshed split: buffer_kind.splits)

lemma timedelta_seconds_threshold:
  assumes "0 \<le> d" "d < 86400000000"
  shows "30 < timedelta_seconds d \<longleftrightarrow> 31000000 \<le> d"
proof -
  have "d mod 86400000000 = d" using assms by simp
  then have "timedelta_seconds d = d div 1000000" by (simp add: timedelta_seconds_def)
  then show ?thesis by auto
qed

subsection \<open>Scrolling\<close>

text \<open>
  C8. For a buffer of \<open>N\<close> lines whose offset is in \<open>[0, N]\<close>, scrolling up or down by
  any amount \<open>n \<ge> 0\<close> leaves the lines as they are and the offset in \<open>[0, N]\<close>;
  scrolling down by at least \<open>N - offset\<close> stops at \<open>N\<close>, scrolling up by at least the
  offset stops at 0, and \<open>position_summary\<close> then starts at row 1 and ends at
  \<open>min(offset + page_size, N)\<close>.
\<close>

theorem scroll_clamped:
  assumes "0 \<le> line_offset b" "line_offset b \<le> int (length (lines b))" "0 \<le> n"
  shows "lines (scroll_up n b) = lines b \<and> lines (scroll_down n b) = lines b
       \<and> 0 \<le> line_offset (scroll_up n b) \<and> line_offset (scroll_up n b) \<le> int (length (lines b))
       \<and> 0 \<le> line_offset (scroll_down n b) \<and> line_offset (scroll_down n b) \<le> int (length (lines b))
       \<and> (int (length (lines b)) - line_offset b \<le> n \<longrightarrow>
            line_offset (scroll_down n b) = int (length (lines b)))
       \<and> (line_offset b \<le> n \<longrightarrow>
            line_offset (scroll_up n b) = 0
            \<and> position_summary (scroll_up n b) page_size =
                ''['' @ str_int 1 @ ''..'' @ str_int (min (0 + page_size) (int (length (lines b))))
                  @ ''/'' @ str_int (int (length (lines b))) @ '']'')"
  using assms by (auto simp: scroll_up_def scroll_down_def invalidate_def position_summary_def)

theorem scroll_clamped_witness:
  "0 \<le> line_offset three_lines \<and> line_offset three_lines \<le> int (length (lines three_lines))
   \<and> (0::int) \<le> 1000
   \<and> line_offset (scroll_down 1000 three_lines) = 3
   \<and> line_offset (scroll_up 1000 three_lines) = 0
   \<and> position_summary (scroll_up 1000 three_lines) 20 = ''[1..3/3]''"
proof -
  have h: "0 \<le> line_offset three_lines" "line_offset three_lines \<le> int (length (lines three_lines))"
    by (simp_all add: three_lines_def Buffer_init_def)
  have s: "str_int 1 = ''1''" "str_int 3 = ''3''" by code_simp+
  have l: "int (length (lines three_lines)) = 3" by (simp add: three_lines_def)
  show ?thesis
    using h scroll_clamped [OF h, of 1000 20] by (simp add: l s)
qed

subsection \<open>The timed refresh\<close>

text \<open>
  C2, as the code has it. \<open>consider_refresh\<close> compares the seconds field of the elapsed
  time with 30. For an elapsed time from zero to less than a day it calls \<open>refresh\<close>
  exactly when at least 31 seconds have elapsed, after recording the clock's second
  reading as the time of the last refresh; before that it does nothing.
\<close>

theorem consider_refresh_cadence:
  assumes "0 \<le> now - last_refreshed b" "now - last_refreshed b < 86400000000"
  shows "consider_refresh E now now' b =
           (if 31000000 \<le> now - last_refreshed b then refresh E (b\<lparr>last_refreshed := now'\<rparr>) else Inr b)
         \<and> (\<forall>b'. 31000000 \<le> now - last_refreshed b \<and> consider_refresh E now now' b = Inr b'
                \<longrightarrow> last_refreshed b' = now')"
  using timedelta_seconds_threshold [OF assms]
  by (auto simp: consider_refresh_def dest: refresh_last_refreshed)

theorem consider_refresh_cadence_witness:
  "0 \<le> 31000000 - last_refreshed (Buffer_init TextBuffer 0)
   \<and> 31000000 - last_refreshed (Buffer_init TextBuffer 0) < 86400000000
   \<and> consider_refresh example_env 31000000 31000005 (Buffer_init TextBuffer 0) =
       Inr ((Buffer_init TextBuffer 0)
              \<lparr>last_refreshed := 31000005, headers_outstanding := True, body_outstanding := True\<rparr>)"
proof -
  have h: "0 \<le> 31000000 - last_refreshed (Buffer_init TextBuffer 0)"
    "31000000 - last_refreshed (Buffer_init TextBuffer 0) < 86400000000"
    by (simp_all add: Buffer_init_def)
  show ?thesis
    using h consider_refresh_cadence [OF h, of example_env 31000005]
    by (simp add: Buffer_init_def refresh_def invalidate_def)
qed

text \<open>
  After 30.5 seconds, which is more than 30 seconds, the buffer comes back as it was,
  while a refresh would have changed it.
\<close>

theorem consider_refresh_counterexample:
  "30000000 < 30500000 - last_refreshed (Buffer_init TextBuffer 0)
   \<and> consider_refresh example_env 30500000 30500000 (Buffer_init TextBuffer 0) =
       Inr (Buffer_init TextBuffer 0)
   \<and> refresh example_env ((Buffer_init TextBuffer 0)\<lparr>last_refreshed := 30500000\<rparr>) \<noteq>
       Inr (Buffer_init TextBuffer 0)"
  by (simp add: consider_refresh_def timedelta_seconds_def Buffer_init_def refresh_def
        invalidate_def)

subsection \<open>A rebuild keeps the scroll offset\<close>

text \<open>
  C10. \<open>renew\<close> changes the header cells, the lines and the two flags and nothing
  else, so the scroll offset is the same after \<open>renew\<close>, after \<open>refresh\<close> and after
  \<open>consider_refresh\<close>; scrolling down by \<open>n \<ge> 0\<close> afterwards brings an offset that is
  not negative back to at most the number of lines.
\<close>

theorem rebuild_keeps_scroll:
  "(renew_with h b = Inr b' \<longrightarrow>
      line_offset b' = line_offset b
      \<and> b' = b\<lparr>col_names := col_names b', lines := lines b',
                 headers_outstanding := True, body_outstanding := True\<rparr>)
   \<and> (renew b = Inr b' \<longrightarrow> line_offset b' = line_offset b)
   \<and> (refresh E b = Inr b' \<longrightarrow> line_offset b' = line_offset b)
   \<and> (consider_refresh E now now' b = Inr b' \<longrightarrow> line_offset b' = line_offset b)
   \<and> (0 \<le> n \<and> 0 \<le> line_offset b' \<longrightarrow>
        0 \<le> line_offset (scroll_down n b')
        \<and> line_offset (scroll_down n b') \<le> int (length (lines b')))"
proof -
  have "consider_refresh E now now' b = Inr b' \<longrightarrow> line_offset b' = line_offset b"
    by (auto simp: consider_refresh_def dest: refresh_line_offset split: if_splits)
  moreover have "renew b = Inr b' \<longrightarrow> line_offset b' = line_offset b"
    by (simp add: renew_def renew_with_line_offset)
  moreover have "0 \<le> n \<and> 0 \<le> line_offset b' \<longrightarrow>
        0 \<le> line_offset (scroll_down n b')
        \<and> line_offset (scroll_down n b') \<le> int (length (lines b'))"
    by (simp add: scroll_down_def invalidate_def)
  ultimately show ?thesis
    using renew_with_frame [of h b b'] renew_with_line_offset [of h b b']
      refresh_line_offset [of E b b']
    by blast
qed

theorem rebuild_keeps_scroll_witness:
  "consider_refresh example_env 31000000 31000000 scrolled_board = Inr refreshed_board
   \<and> line_offset scrolled_board = 5
   \<and> line_offset refreshed_board = 5
   \<and> int (length (lines refreshed_board)) = 0
   \<and> (0::int) \<le> 1
   \<and> line_offset (scroll_down 1 refreshed_board) = 0"
proof -
  have e: "consider_refresh example_env 31000000 31000000 scrolled_board = Inr refreshed_board"
    by code_simp
  have l: "lines refreshed_board = []" "line_offset scrolled_board = 5"
    by (simp_all add: refreshed_board_def scrolled_board_def)
  show ?thesis
    using e l rebuild_keeps_scroll [of Buffer_substitute_fn scrolled_board refreshed_board
        example_env 31000000 31000000 1]
    by auto
qed

subsection \<open>The platform justifier\<close>

text \<open>
  C4. With length 3, \<open>platform_justify\<close> maps the empty string to three spaces, one
  character to that character between two spaces, a longer value whose last character
  is alphabetic and whose first is numeric to the value right-justified, and any other
  value to the value left-justified; so \<open>5\<close> gives \<open> 5 \<close>, \<open>3R\<close> gives \<open> 3R\<close> and
  \<open>LH\<close> gives \<open>LH \<close>. With any other length it raises ValueError, whatever the value.
\<close>

theorem platform_justify_cases:
  "platform_justify (PStr []) (AInt 3) = Inr ''   ''
   \<and> platform_justify (PStr [c]) (AInt 3) = Inr [CHR '' '', c, CHR '' '']
   \<and> (2 \<le> length s \<and> isalpha (last s) \<and> isnumeric (hd s) \<longrightarrow>
        platform_justify (PStr s) (AInt 3) = Inr (rjust s 3))
   \<and> (2 \<le> length s \<and> \<not> (isalpha (last s) \<and> isnumeric (hd s)) \<longrightarrow>
        platform_justify (PStr s) (AInt 3) = Inr (ljust s 3))
   \<and> platform_justify (PStr ''5'') (AInt 3) = Inr '' 5 ''
   \<and> platform_justify (PStr ''3R'') (AInt 3) = Inr '' 3R''
   \<and> platform_justify (PStr ''LH'') (AInt 3) = Inr ''LH ''
   \<and> (l \<noteq> AInt 3 \<longrightarrow> platform_justify v l = Inl ValueError)"
  by (auto simp: ljust_def rjust_def isalpha_def isnumeric_def)

theorem platform_justify_cases_witness:
  "2 \<le> length ''12A'' \<and> isalpha (last ''12A'') \<and> isnumeric (hd ''12A'')
   \<and> platform_justify (PStr ''12A'') (AInt 3) = Inr ''12A''
   \<and> AInt 4 \<noteq> AInt 3
   \<and> platform_justify (PStr ''LH'') (AInt 4) = Inl ValueError"
  using platform_justify_cases [of "CHR ''x''" "''12A''" "AInt 4" "PStr ''LH''"]
  by (simp add: rjust_def isalpha_def isnumeric_def)

subsection \<open>Editing the command line\<close>

lemma slice_to_nat: "0 \<le> n \<Longrightarrow> slice_to s n = take (nat n) s"
  by (simp add: slice_to_def)

lemma slice_from_nat: "0 \<le> n \<Longrightarrow> slice_from s n = drop (nat n) s"
  by (simp add: slice_from_def)

lemmas key_defs = KEY_DOWN_def KEY_UP_def KEY_LEFT_def KEY_RIGHT_def KEY_BACKSPACE_def
  KEY_DC_def KEY_ENTER_def KEY_RESIZE_def

text \<open>
  What each editing key does when the cursor is in \<open>[0, len(compose)]\<close>, which every
  key keeps it in.
\<close>

lemma entry_key_cases:
  assumes "0 \<le> cursor_pos st" "cursor_pos st \<le> int (length (compose st))"
  shows
   "(32 \<le> k \<and> k \<le> 126 \<and> cursor_pos st < win_cols - 1 \<longrightarrow>
       entry_key E now now' win_cols k st =
         Inr (st\<lparr>compose := take (nat (cursor_pos st)) (compose st) @ [char_of k]
                              @ drop (nat (cursor_pos st)) (compose st),
                 cursor_pos := cursor_pos st + 1\<rparr>))
    \<and> (32 \<le> k \<and> k \<le> 126 \<and> \<not> cursor_pos st < win_cols - 1 \<longrightarrow>
       entry_key E now now' win_cols k st = Inr (st\<lparr>beeps := Suc (beeps st)\<rparr>))
    \<and> entry_key E now now' win_cols KEY_BACKSPACE st =
         (if cursor_pos st = 0 then Inr st
          else Inr (st\<lparr>compose := take (nat (cursor_pos st) - 1) (compose st)
                                   @ drop (nat (cursor_pos st)) (compose st),
                      cursor_pos := cursor_pos st - 1\<rparr>))
    \<and> (cursor_pos st \<noteq> 0 \<longrightarrow>
         entry_key E now now' win_cols KEY_DC st =
           Inr (st\<lparr>compose := take (nat (cursor_pos st)) (compose st)
                                @ drop (Suc (nat (cursor_pos st))) (compose st)\<rparr>))
    \<and> entry_key E now now' win_cols KEY_LEFT st = Inr (st\<lparr>cursor_pos := max (cursor_pos st - 1) 0\<rparr>)
    \<and> entry_key E now now' win_cols KEY_RIGHT st =
         Inr (st\<lparr>cursor_pos := min (cursor_pos st + 1) (int (length (compose st)))\<rparr>)
    \<and> (entry_key E now now' win_cols k st = Inr st' \<longrightarrow>
         0 \<le> cursor_pos st' \<and> cursor_pos st' \<le> int (length (compose st')))"
proof -
  have ins: "32 \<le> k \<and> k \<le> 126 \<and> cursor_pos st < win_cols - 1 \<longrightarrow>
       entry_key E now now' win_cols k st =
         Inr (st\<lparr>compose := take (nat (cursor_pos st)) (compose st) @ [char_of k]
                              @ drop (nat (cursor_pos st)) (compose st),
                 cursor_pos := cursor_pos st + 1\<rparr>)"
    using assms by (simp add: entry_key_def key_defs slice_to_nat slice_from_nat)
  have rej: "32 \<le> k \<and> k \<le> 126 \<and> \<not> cursor_pos st < win_cols - 1 \<longrightarrow>
       entry_key E now now' win_cols k st = Inr (st\<lparr>beeps := Suc (beeps st)\<rparr>)"
    by (simp add: entry_key_def key_defs)
  have bs: "entry_key E now now' win_cols KEY_BACKSPACE st =
         (if cursor_pos st = 0 then Inr st
          else Inr (st\<lparr>compose := take (nat (cursor_pos st) - 1) (compose st)
                                   @ drop (nat (cursor_pos st)) (compose st),
                      cursor_pos := cursor_pos st - 1\<rparr>))"
    using assms by (simp add: entry_key_def key_defs slice_to_nat slice_from_nat nat_diff_distrib)
  have dc: "cursor_pos st \<noteq> 0 \<longrightarrow>
         entry_key E now now' win_cols KEY_DC st =
           Inr (st\<lparr>compose := take (nat (cursor_pos st)) (compose st)
                                @ drop (Suc (nat (cursor_pos st))) (compose st)\<rparr>)"
    using assms by (simp add: entry_key_def key_defs slice_to_nat slice_from_nat nat_add_distrib)
  have lr: "entry_key E now now' win_cols KEY_LEFT st = Inr (st\<lparr>cursor_pos := max (cursor_pos st - 1) 0\<rparr>)"
    "entry_key E now now' win_cols KEY_RIGHT st =
         Inr (st\<lparr>cursor_pos := min (cursor_pos st + 1) (int (length (compose st)))\<rparr>)"
    by (simp_all add: entry_key_def key_defs)
  have inv: "entry_key E now now' win_cols k st = Inr st' \<longrightarrow>
         0 \<le> cursor_pos st' \<and> cursor_pos st' \<le> int (length (compose st'))"
    using assms
    by (auto simp: entry_key_def key_defs slice_to_nat slice_from_nat py_bind_eq_Inr
          split: if_splits)
  from ins rej bs dc lr inv show ?thesis by blast
qed

text \<open>
  C9. In a terminal of 80 columns the keys \<open>:\<close>, then \<open>x\<close> eighty times, then the
  left arrow and \<open>x\<close> once more leave a command line of 80 characters: the eightieth
  \<open>x\<close> is refused with a beep, as line 598 intends, but after the left arrow the
  cursor is at 78 and the next \<open>x\<close> is inserted without a beep, because the test is
  on the cursor and not on the length. The iteration after that ends \<^verbatim>\<open>main\<close> with
  \<^verbatim>\<open>curses.error\<close>, the line no longer fitting the footer. And the delete key with the
  cursor at position 0 leaves the command line as it is, whatever is at the cursor.
\<close>

theorem overlong_command_line:
  "main_loop example_env 0 80 overlong_keys idle_editor =
     Inr (idle_editor\<lparr>compose := replicate 80 CHR ''x'', cursor_pos := 79,
                      text_entry_mode := True, beeps := 1\<rparr>)
   \<and> main_loop example_env 0 80 (overlong_keys @ [120]) idle_editor = Inl CursesError
   \<and> entry_key E now now' win_cols KEY_DC (st\<lparr>cursor_pos := 0\<rparr>) = Inr (st\<lparr>cursor_pos := 0\<rparr>)"
proof -
  have a: "main_loop example_env 0 80 overlong_keys idle_editor =
     Inr (idle_editor\<lparr>compose := replicate 80 CHR ''x'', cursor_pos := 79,
                      text_entry_mode := True, beeps := 1\<rparr>)"
    by code_simp
  have b: "main_loop example_env 0 80 (overlong_keys @ [120]) idle_editor = Inl CursesError"
    by code_simp
  have c: "entry_key E now now' win_cols KEY_DC (st\<lparr>cursor_pos := 0\<rparr>) = Inr (st\<lparr>cursor_pos := 0\<rparr>)"
    by (simp add: entry_key_def key_defs)
  from a b c show ?thesis by simp
qed

subsection \<open>Submitting a command\<close>

text \<open>
  C5. Submitting \<open>uid W12345\<close>, which has no date: \<^verbatim>\<open>compose.split(" ")[2]\<close> raises
  IndexError, whatever the environment and the rest of the editor's state, so the
  command line is not cleared and the loop ends with the exception.
\<close>

theorem submit_uid_without_date:
  "entry_key E now now' win_cols KEY_ENTER (st\<lparr>compose := ''uid W12345''\<rparr>) = Inl IndexError"
  by (simp add: entry_key_def key_defs submit_def startswith_def lower_def lower_char_def
        list_index_def py_bind_Inl py_bind_Inr)

text \<open>The commands that are recognised, and one that is not.\<close>

lemma submit_examples:
  "submit E now now' ''TRJD cdf'' b = BoardBuffer_init E now' (now - 600000000) 120 ''CDF''"
  "submit E now now' ''banana'' b = Inr b"
  "strptime E ''2024-03-01'' = Inr (2024, 3, 1) \<Longrightarrow>
     submit E now now' ''uid W12345 2024-03-01'' b = ServiceBuffer_init E now' (2024, 3, 1) ''W12345''"
proof -
  have l: "lower ''TRJD cdf'' = ''trjd cdf''" "lower ''banana'' = ''banana''"
    "lower ''uid W12345 2024-03-01'' = ''uid w12345 2024-03-01''"
    by code_simp+
  have u: "upper ''cdf'' = ''CDF''" "upper ''W12345'' = ''W12345''"
    by code_simp+
  show "submit E now now' ''TRJD cdf'' b = BoardBuffer_init E now' (now - 600000000) 120 ''CDF''"
    by (simp add: submit_def l startswith_def list_index_def py_bind_Inr u)
  show "submit E now now' ''banana'' b = Inr b"
    by (simp add: submit_def l startswith_def)
  show "strptime E ''2024-03-01'' = Inr (2024, 3, 1) \<Longrightarrow>
     submit E now now' ''uid W12345 2024-03-01'' b = ServiceBuffer_init E now' (2024, 3, 1) ''W12345''"
    by (simp add: submit_def l startswith_def list_index_def py_bind_Inr u)
qed


subsection \<open>Inheritance\<close>

lemma length_inherited_defaults: "inherited_defaults cs = Inr d \<Longrightarrow> length d = 4"
  by (auto simp: inherited_defaults_def split: schema.splits option.splits)

lemma length_inherit: "length inh = 4 \<Longrightarrow> length d = 4 \<Longrightarrow> length (inherit inh d) = 4"
  by (simp add: inherit_def)

lemma inherit_nth:
  "length inh = 4 \<Longrightarrow> length d = 4 \<Longrightarrow> k < 4 \<Longrightarrow> inherit inh d ! k = attr_or (inh ! k) (d ! k)"
  by (simp add: inherit_def)

lemma walk_row_keeps:
  "length inh = 4 \<Longrightarrow> k < 4 \<Longrightarrow> attr_truthy (inh ! k) \<Longrightarrow>
   walk_row inh cell cs path = Inr (inh', cell', leaf) \<Longrightarrow> inh' ! k = inh ! k"
proof (induction path arbitrary: inh cell cs)
  case Nil
  then show ?case by simp
next
  case (Cons level levels)
  from Cons.prems(4) obtain d c1 cs1 where
    d: "inherited_defaults cs = Inr d" and
    w: "walk_row (inherit inh d) c1 cs1 levels = Inr (inh', cell', leaf)"
    by (auto split: sum.splits)
  have l: "length d = 4" using d by (rule length_inherited_defaults)
  have n: "inherit inh d ! k = inh ! k"
    using Cons.prems(1-3) l by (simp add: inherit_nth attr_or_def)
  have "inh' ! k = inherit inh d ! k"
    using Cons.IH [OF length_inherit [OF Cons.prems(1) l] Cons.prems(2) _ w] n Cons.prems(3)
    by simp
  with n show ?case by simp
qed

lemma walk_row_first:
  assumes "length inh = 4" "k < 4" "inherited_defaults cs = Inr d"
    and "\<not> attr_truthy (inh ! k)" "attr_truthy (d ! k)"
    and "walk_row inh cell cs (level # levels) = Inr (inh', cell', leaf)"
  shows "inh' ! k = d ! k"
proof -
  from assms(3,6) obtain c1 cs1 where
    w: "walk_row (inherit inh d) c1 cs1 levels = Inr (inh', cell', leaf)"
    by (auto split: sum.splits)
  have l: "length d = 4" using assms(3) by (rule length_inherited_defaults)
  have n: "inherit inh d ! k = d ! k"
    using assms(1,2,4) l by (simp add: inherit_nth attr_or_def)
  show ?thesis
    using walk_row_keeps [OF length_inherit [OF assms(1) l] assms(2) _ w] n assms(5) by simp
qed

lemma walk_row_schema:
  "walk_row inh cell cs path = Inr (inh', cell', leaf) \<Longrightarrow> walk_schema inh cs path = Inr (inh', leaf)"
  by (induction path arbitrary: inh cell cs) (auto split: sum.splits)

lemma walk_schema_keeps:
  "length inh = 4 \<Longrightarrow> k < 4 \<Longrightarrow> attr_truthy (inh ! k) \<Longrightarrow>
   walk_schema inh cs path = Inr (inh', leaf) \<Longrightarrow> inh' ! k = inh ! k"
proof (induction path arbitrary: inh cs)
  case Nil
  then show ?case by simp
next
  case (Cons level levels)
  from Cons.prems(4) obtain d cs1 where
    d: "inherited_defaults cs = Inr d" and
    w: "walk_schema (inherit inh d) cs1 levels = Inr (inh', leaf)"
    by (auto split: sum.splits)
  have l: "length d = 4" using d by (rule length_inherited_defaults)
  have n: "inherit inh d ! k = inh ! k"
    using Cons.prems(1-3) l by (simp add: inherit_nth attr_or_def)
  have "inh' ! k = inherit inh d ! k"
    using Cons.IH [OF length_inherit [OF Cons.prems(1) l] Cons.prems(2) _ w] n Cons.prems(3)
    by simp
  with n show ?case by simp
qed

lemma walk_schema_first:
  assumes "length inh = 4" "k < 4" "inherited_defaults cs = Inr d"
    and "\<not> attr_truthy (inh ! k)" "attr_truthy (d ! k)"
    and "walk_schema inh cs (level # levels) = Inr (inh', leaf)"
  shows "inh' ! k = d ! k"
proof -
  from assms(3,6) obtain cs1 where
    w: "walk_schema (inherit inh d) cs1 levels = Inr (inh', leaf)"
    by (auto split: sum.splits)
  have l: "length d = 4" using assms(3) by (rule length_inherited_defaults)
  have n: "inherit inh d ! k = d ! k"
    using assms(1,2,4) l by (simp add: inherit_nth attr_or_def)
  show ?thesis
    using walk_schema_keeps [OF length_inherit [OF assms(1) l] assms(2) _ w] n assms(5) by simp
qed

lemma schema_index_Inr: "schema_index cs i = Inr a \<Longrightarrow> \<exists>t. cs = STuple t \<and> i < length t \<and> a = t ! i"
  by (cases cs) (auto simp: list_index_def split: if_splits)

lemma resolve_body_leaf:
  assumes "resolve_body sch row col = Inr (c, pad, justify, color)"
  shows "\<exists>inh leaf.
           walk_row [ANone, ANone, ANone, ANone] row sch (split CHR ''/'' col) = Inr (inh, c, STuple leaf)
         \<and> 2 \<le> length leaf
         \<and> pad = attr_or (leaf ! 1) (inh ! 1)
         \<and> justify = attr_or (if 3 \<le> length leaf then leaf ! 2 else ANone) (inh ! 2)
         \<and> color = attr_or (attr_or (if 4 \<le> length leaf then leaf ! 3 else AInt 0) (inh ! 3)) (AInt 0)"
proof -
  from assms obtain inh cs p j cl where
    w: "walk_row [ANone, ANone, ANone, ANone] row sch (split CHR ''/'' col) = Inr (inh, c, cs)" and
    p: "schema_index cs 1 = Inr p" and
    j: "(if 3 \<le> schema_len cs then schema_index cs 2 else Inr ANone) = Inr j" and
    cl: "(if 4 \<le> schema_len cs then schema_index cs 3 else Inr (AInt 0)) = Inr cl" and
    r: "pad = attr_or p (inh ! 1)" "justify = attr_or j (inh ! 2)"
       "color = attr_or (attr_or cl (inh ! 3)) (AInt 0)"
    by (auto simp: resolve_body_def py_bind_eq_Inr)
  from p obtain leaf where leaf: "cs = STuple leaf" "1 < length leaf" "p = leaf ! 1"
    by (auto dest: schema_index_Inr)
  have j': "j = (if 3 \<le> length leaf then leaf ! 2 else ANone)"
    using j leaf by (auto simp: list_index_def split: if_splits)
  have cl': "cl = (if 4 \<le> length leaf then leaf ! 3 else AInt 0)"
    using cl leaf by (auto simp: list_index_def split: if_splits)
  show ?thesis
    using w leaf r j' cl' by (intro exI [of _ inh] exI [of _ leaf]) simp
qed

lemma resolve_header_leaf:
  assumes "resolve_header sch col = Inr (name, pad, color)"
  shows "\<exists>inh leaf.
           walk_schema [ANone, ANone, ANone, ANone] sch (split CHR ''/'' col) = Inr (inh, STuple leaf)
         \<and> 2 \<le> length leaf
         \<and> name = attr_or (leaf ! 0) (inh ! 0)
         \<and> pad = attr_or (leaf ! 1) (inh ! 1)
         \<and> color = attr_or (attr_or (if 4 \<le> length leaf then leaf ! 3 else AInt 0) (inh ! 3)) (AInt 0)"
proof -
  from assms obtain inh cs n p cl where
    w: "walk_schema [ANone, ANone, ANone, ANone] sch (split CHR ''/'' col) = Inr (inh, cs)" and
    n: "schema_index cs 0 = Inr n" and
    p: "schema_index cs 1 = Inr p" and
    cl: "(if 4 \<le> schema_len cs then schema_index cs 3 else Inr (AInt 0)) = Inr cl" and
    r: "name = attr_or n (inh ! 0)" "pad = attr_or p (inh ! 1)"
       "color = attr_or (attr_or cl (inh ! 3)) (AInt 0)"
    by (auto simp: resolve_header_def py_bind_eq_Inr)
  from p obtain leaf where leaf: "cs = STuple leaf" "1 < length leaf" "p = leaf ! 1"
    by (auto dest: schema_index_Inr)
  have n': "n = leaf ! 0"
    using n leaf by (auto simp: list_index_def split: if_splits)
  have cl': "cl = (if 4 \<le> length leaf then leaf ! 3 else AInt 0)"
    using cl leaf by (auto simp: list_index_def split: if_splits)
  show ?thesis
    using w leaf r n' cl' by (intro exI [of _ inh] exI [of _ leaf]) simp
qed

text \<open>
  C3, as the code has it. A slot counts as set when its value is true in Python's
  sense (not None, 0 or empty), which is what \<^verbatim>\<open>a or b\<close> tests. At every node of the
  walk, a slot that is already set keeps its value to the end of the walk, and a slot
  that is not yet set takes the value this node's defaults set for it, whatever deeper
  nodes declare. At the leaf, the width, the justifier and the colour of a cell (and
  the name, the width and the colour of a header) are the leaf's own entry when it is
  set in that sense and the inherited value otherwise. With an outer default width 5
  and an inner default width 9 a leaf without a width gets 5; it gets 9 when the outer
  node leaves the width unset; and a leaf with colour 7 under defaults of colour 3
  gets 7.
\<close>

theorem inheritance_precedence:
  "(length inh = 4 \<and> k < 4 \<and> inherited_defaults cs = Inr d
      \<and> walk_row inh cell cs (level # levels) = Inr (inh', cell', leaf) \<longrightarrow>
        (attr_truthy (inh ! k) \<longrightarrow> inh' ! k = inh ! k)
      \<and> (\<not> attr_truthy (inh ! k) \<and> attr_truthy (d ! k) \<longrightarrow> inh' ! k = d ! k))
   \<and> (length inh = 4 \<and> k < 4 \<and> inherited_defaults cs = Inr d
      \<and> walk_schema inh cs (level # levels) = Inr (hinh', hleaf) \<longrightarrow>
        (attr_truthy (inh ! k) \<longrightarrow> hinh' ! k = inh ! k)
      \<and> (\<not> attr_truthy (inh ! k) \<and> attr_truthy (d ! k) \<longrightarrow> hinh' ! k = d ! k))
   \<and> (resolve_body sch row col = Inr (c, pad, justify, color) \<longrightarrow>
        (\<exists>acc t.
           walk_row [ANone, ANone, ANone, ANone] row sch (split CHR ''/'' col) = Inr (acc, c, STuple t)
         \<and> 2 \<le> length t
         \<and> pad = attr_or (t ! 1) (acc ! 1)
         \<and> justify = attr_or (if 3 \<le> length t then t ! 2 else ANone) (acc ! 2)
         \<and> color = attr_or (attr_or (if 4 \<le> length t then t ! 3 else AInt 0) (acc ! 3)) (AInt 0)))
   \<and> (resolve_header sch col = Inr (name, hpad, hcolor) \<longrightarrow>
        (\<exists>acc t.
           walk_schema [ANone, ANone, ANone, ANone] sch (split CHR ''/'' col) = Inr (acc, STuple t)
         \<and> 2 \<le> length t
         \<and> name = attr_or (t ! 0) (acc ! 0)
         \<and> hpad = attr_or (t ! 1) (acc ! 1)
         \<and> hcolor = attr_or (attr_or (if 4 \<le> length t then t ! 3 else AInt 0) (acc ! 3)) (AInt 0)))
   \<and> resolve_body
        (nested_schema [ANone, AInt 5] [ANone, AInt 9] [AStr ''X'', ANone]) nested_row ''a/x''
      = Inr (PStr ''v'', AInt 5, ANone, AInt 0)
   \<and> resolve_body
        (nested_schema [ANone, ANone] [ANone, AInt 9] [AStr ''X'', ANone]) nested_row ''a/x''
      = Inr (PStr ''v'', AInt 9, ANone, AInt 0)
   \<and> resolve_body
        (nested_schema [ANone, AInt 5, ANone, AInt 3] [ANone, ANone, ANone, AInt 3]
           [AStr ''X'', ANone, ANone, AInt 7]) nested_row ''a/x''
      = Inr (PStr ''v'', AInt 5, ANone, AInt 7)"
proof -
  have e1: "resolve_body
        (nested_schema [ANone, AInt 5] [ANone, AInt 9] [AStr ''X'', ANone]) nested_row ''a/x''
      = Inr (PStr ''v'', AInt 5, ANone, AInt 0)"
    by code_simp
  have e2: "resolve_body
        (nested_schema [ANone, ANone] [ANone, AInt 9] [AStr ''X'', ANone]) nested_row ''a/x''
      = Inr (PStr ''v'', AInt 9, ANone, AInt 0)"
    by code_simp
  have e3: "resolve_body
        (nested_schema [ANone, AInt 5, ANone, AInt 3] [ANone, ANone, ANone, AInt 3]
           [AStr ''X'', ANone, ANone, AInt 7]) nested_row ''a/x''
      = Inr (PStr ''v'', AInt 5, ANone, AInt 7)"
    by code_simp
  show ?thesis
    using e1 e2 e3 walk_row_keeps [of inh k cell cs "level # levels" inh' cell' leaf]
      walk_row_first [of inh k cs d cell level levels inh' cell' leaf]
      walk_schema_keeps [of inh k cs "level # levels" hinh' hleaf]
      walk_schema_first [of inh k cs d level levels hinh' hleaf]
      resolve_body_leaf [of sch row col c pad justify color]
      resolve_header_leaf [of sch col name hpad hcolor]
    by blast
qed

theorem inheritance_precedence_witness:
  "length [ANone, ANone, ANone, ANone] = 4 \<and> (1::nat) < 4
   \<and> inherited_defaults (nested_schema [ANone, ANone] [ANone, AInt 9] [AStr ''X'', ANone])
       = Inr [ANone, ANone, ANone, ANone]
   \<and> walk_row [ANone, ANone, ANone, ANone] nested_row
        (nested_schema [ANone, ANone] [ANone, AInt 9] [AStr ''X'', ANone]) [''a'', ''x'']
       = Inr ([ANone, AInt 9, ANone, ANone], PStr ''v'', STuple [AStr ''X'', ANone])
   \<and> inherited_defaults (SDict [(''_'', STuple [ANone, AInt 9]), (''x'', STuple [AStr ''X'', ANone])])
       = Inr [ANone, AInt 9, ANone, ANone]
   \<and> walk_row [ANone, ANone, ANone, ANone] (PDict [(''x'', PStr ''v'')])
        (SDict [(''_'', STuple [ANone, AInt 9]), (''x'', STuple [AStr ''X'', ANone])]) [''x'']
       = Inr ([ANone, AInt 9, ANone, ANone], PStr ''v'', STuple [AStr ''X'', ANone])
   \<and> \<not> attr_truthy ([ANone, ANone, ANone, ANone] ! 1)
   \<and> attr_truthy ([ANone, AInt 9, ANone, ANone] ! 1)
   \<and> [ANone, AInt 9, ANone, ANone] ! 1 = AInt 9"
proof -
  have a: "inherited_defaults (nested_schema [ANone, ANone] [ANone, AInt 9] [AStr ''X'', ANone])
       = Inr [ANone, ANone, ANone, ANone]"
    by code_simp
  have b: "walk_row [ANone, ANone, ANone, ANone] nested_row
        (nested_schema [ANone, ANone] [ANone, AInt 9] [AStr ''X'', ANone]) [''a'', ''x'']
       = Inr ([ANone, AInt 9, ANone, ANone], PStr ''v'', STuple [AStr ''X'', ANone])"
    by code_simp
  have c: "inherited_defaults (SDict [(''_'', STuple [ANone, AInt 9]), (''x'', STuple [AStr ''X'', ANone])])
       = Inr [ANone, AInt 9, ANone, ANone]"
    by code_simp
  have d: "walk_row [ANone, ANone, ANone, ANone] (PDict [(''x'', PStr ''v'')])
        (SDict [(''_'', STuple [ANone, AInt 9]), (''x'', STuple [AStr ''X'', ANone])]) [''x'']
       = Inr ([ANone, AInt 9, ANone, ANone], PStr ''v'', STuple [AStr ''X'', ANone])"
    by code_simp
  show ?thesis
    using a b c d
      inheritance_precedence [of "[ANone, ANone, ANone, ANone]" 1
        "SDict [(''_'', STuple [ANone, AInt 9]), (''x'', STuple [AStr ''X'', ANone])]"
        "[ANone, AInt 9, ANone, ANone]" "PDict [(''x'', PStr ''v'')]" "''x''" "[]"
        "[ANone, AInt 9, ANone, ANone]" "PStr ''v''" "STuple [AStr ''X'', ANone]"]
    by simp
qed

text \<open>
  A leaf that gives colour 0 itself, under defaults of colour 3, gets colour 3: line 94
  computes \<^verbatim>\<open>0 or 3 or 0\<close>.
\<close>

theorem inheritance_precedence_counterexample:
  "resolve_body
     (nested_schema [ANone, AInt 5, ANone, AInt 3] [ANone, ANone, ANone, AInt 3]
        [AStr ''X'', ANone, ANone, AInt 0]) nested_row ''a/x''
     = Inr (PStr ''v'', AInt 5, ANone, AInt 3)"
  by code_simp

subsection \<open>The width of a cell\<close>

lemma render_line_cells:
  "render_line hook sch row fmt = Inr l \<Longrightarrow>
   length l = length fmt \<and> (\<forall>j<length fmt. format_cell hook sch row (fmt ! j) = Inr (l ! j))"
proof (induction fmt arbitrary: l)
  case Nil
  then show ?case by simp
next
  case (Cons c cs)
  from Cons.prems obtain x xs where
    x: "format_cell hook sch row c = Inr x" and xs: "render_line hook sch row cs = Inr xs"
    and l: "l = x # xs"
    by (auto split: sum.splits)
  show ?case using Cons.IH [OF xs] x l by (auto simp: nth_Cons split: nat.splits)
qed

lemma render_lines_rows:
  "render_lines hook sch fmt rs = Inr ls \<Longrightarrow>
   length ls = length rs \<and> (\<forall>i<length rs. render_line hook sch (rs ! i) fmt = Inr (ls ! i))"
proof (induction rs arbitrary: ls)
  case Nil
  then show ?case by simp
next
  case (Cons r rs)
  from Cons.prems obtain x xs where
    x: "render_line hook sch r fmt = Inr x" and xs: "render_lines hook sch fmt rs = Inr xs"
    and l: "ls = x # xs"
    by (auto split: sum.splits)
  show ?case using Cons.IH [OF xs] x l by (auto simp: nth_Cons split: nat.splits)
qed

lemma renew_with_cell:
  assumes "renew_with hook b = Inr b'" "i < length (rows (data b))" "j < length (format b)"
  shows "format_cell hook (schema (data b)) (rows (data b) ! i) (format b ! j) = Inr (lines b' ! i ! j)"
proof -
  from assms(1) obtain ls where
    ls: "render_lines hook (schema (data b)) (format b) (rows (data b)) = Inr ls" and
    b': "lines b' = ls"
    by (auto simp: renew_with_def py_bind_eq_Inr invalidate_def)
  from render_lines_rows [OF ls] assms(2)
  have "render_line hook (schema (data b)) (rows (data b) ! i) (format b) = Inr (ls ! i)" by simp
  from render_line_cells [OF this] assms(3) b' show ?thesis by simp
qed

lemma length_ljust: "int (length (ljust s w)) = max (int (length s)) w"
  by (simp add: ljust_def)

lemma length_rjust: "int (length (rjust s w)) = max (int (length s)) w"
  by (simp add: rjust_def)

lemma str_method_width:
  assumes "str_method f v pad = Inr text" "\<And>s w. int (length (f s w)) = max (int (length s)) w"
  shows "\<exists>w s. pad = AInt w \<and> v = PStr s \<and> int (length text) = max (int (length s)) w"
  using assms by (auto simp: str_method_def split: pyval.splits attr.splits)

lemma platform_justify_width:
  assumes "platform_justify v pad = Inr text"
  shows "pad = AInt 3 \<and> 3 \<le> int (length text)
       \<and> (\<forall>s. v = PStr s \<longrightarrow> int (length text) = max (int (length s)) 3)"
  using assms
  by (auto simp: ljust_def rjust_def str_def split: if_splits pyval.splits)

lemma call_justify_width:
  assumes "call_justify justify v pad = Inr text"
  shows "\<exists>w. pad = AInt w \<and> w \<le> int (length text)
       \<and> (\<forall>s. v = PStr s \<longrightarrow> int (length text) = max (int (length s)) w)"
proof (cases "attr_or justify (AFun Str_ljust)")
  case (AFun f)
  show ?thesis
  proof (cases f)
    case Str_ljust
    with AFun assms have "str_method ljust v pad = Inr text" by (simp add: call_justify_def)
    from str_method_width [OF this length_ljust] show ?thesis by auto
  next
    case Str_rjust
    with AFun assms have "str_method rjust v pad = Inr text" by (simp add: call_justify_def)
    from str_method_width [OF this length_rjust] show ?thesis by auto
  next
    case Platform_justify
    with AFun assms have "platform_justify v pad = Inr text" by (simp add: call_justify_def)
    from platform_justify_width [OF this] show ?thesis by auto
  qed
qed (use assms in \<open>simp_all add: call_justify_def\<close>)

text \<open>
  C1, as the code has it. After every rebuild, with any hook, the cell of row \<open>i\<close>
  under column \<open>j\<close> is the hook's text justified by the column's resolved justifier
  to the column's resolved width \<open>w\<close>, as the last step: it is at least \<open>w\<close> long,
  and when the text is a string (the empty string for a cell that is None) its length
  is the larger of the text's length and \<open>w\<close>, so exactly \<open>w\<close> for a text no longer
  than \<open>w\<close>. The justifiers pad and never cut.
\<close>

theorem cell_width:
  assumes "renew_with hook b = Inr b'" "i < length (rows (data b))" "j < length (format b)"
  shows "\<exists>cell w justify color text.
           resolve_body (schema (data b)) (rows (data b) ! i) (format b ! j)
             = Inr (cell, AInt w, justify, color)
         \<and> hook (rows (data b) ! i) (format b ! j) (str cell, color)
             = Inr (text, snd (lines b' ! i ! j))
         \<and> w \<le> int (length (fst (lines b' ! i ! j)))
         \<and> (\<forall>s. (if cell = PNone then PStr [] else text) = PStr s \<longrightarrow>
                int (length (fst (lines b' ! i ! j))) = max (int (length s)) w)"
proof -
  let ?out = "lines b' ! i ! j"
  have "format_cell hook (schema (data b)) (rows (data b) ! i) (format b ! j) = Inr ?out"
    using assms by (rule renew_with_cell)
  then obtain cell pad justify color shown fcolor ftext where
    r: "resolve_body (schema (data b)) (rows (data b) ! i) (format b ! j)
          = Inr (cell, pad, justify, color)" and
    h: "hook (rows (data b) ! i) (format b ! j) (str cell, color) = Inr (shown, fcolor)" and
    c: "call_justify justify (if cell = PNone then PStr [] else shown) pad = Inr ftext" and
    o: "?out = (ftext, fcolor)"
    by (auto simp: format_cell_def py_bind_eq_Inr)
  from call_justify_width [OF c] obtain w where
    w: "pad = AInt w" "w \<le> int (length ftext)"
       "\<forall>s. (if cell = PNone then PStr [] else shown) = PStr s \<longrightarrow>
            int (length ftext) = max (int (length s)) w"
    by blast
  show ?thesis
    using r h w o
    by (intro exI [of _ cell] exI [of _ w] exI [of _ justify] exI [of _ color] exI [of _ shown]) simp
qed

theorem cell_width_witness:
  "renew_with Buffer_substitute_fn welcome_start = Inr welcome_buffer
   \<and> 0 < length (rows (data welcome_start)) \<and> 0 < length (format welcome_start)
   \<and> (\<exists>cell w justify color shown.
         resolve_body (schema (data welcome_start)) (rows (data welcome_start) ! 0)
           (format welcome_start ! 0) = Inr (cell, AInt w, justify, color)
       \<and> Buffer_substitute_fn (rows (data welcome_start) ! 0) (format welcome_start ! 0)
           (str cell, color) = Inr (shown, snd (lines welcome_buffer ! 0 ! 0))
       \<and> w \<le> int (length (fst (lines welcome_buffer ! 0 ! 0)))
       \<and> (\<forall>s. (if cell = PNone then PStr [] else shown) = PStr s \<longrightarrow>
              int (length (fst (lines welcome_buffer ! 0 ! 0))) = max (int (length s)) w))"
proof -
  have a: "renew_with Buffer_substitute_fn welcome_start = Inr welcome_buffer" by code_simp
  have b: "0 < length (rows (data welcome_start))" "0 < length (format welcome_start)"
    by code_simp+
  from a b cell_width [OF a b] show ?thesis by blast
qed

text \<open>
  The welcome buffer that \<^verbatim>\<open>main\<close> builds has a column of width 4 whose first cell is
  \<open>line 1\<close>, six characters long.
\<close>

theorem cell_width_counterexample:
  "TextBuffer_init 0 ''Welcome to BeryilliumSwallow'' welcome_data [''body''] = Inr welcome_buffer
   \<and> resolve_body (schema welcome_data) (rows welcome_data ! 0) ''body''
       = Inr (PStr ''line 1'', AInt 4, ANone, AInt 0)
   \<and> lines welcome_buffer ! 0 ! 0 = (''line 1'', AInt 0)
   \<and> length ''line 1'' \<noteq> 4"
proof -
  have a: "TextBuffer_init 0 ''Welcome to BeryilliumSwallow'' welcome_data [''body'']
             = Inr welcome_buffer" by code_simp
  have b: "resolve_body (schema welcome_data) (rows welcome_data ! 0) ''body''
       = Inr (PStr ''line 1'', AInt 4, ANone, AInt 0)" by code_simp
  have c: "lines welcome_buffer ! 0 ! 0 = (''line 1'', AInt 0)" by code_simp
  from a b c show ?thesis by simp
qed

subsection \<open>The variation column of the board view\<close>







text \<open>The whole line of the late row.\<close>

lemma board_line_late:
  "render_line BoardBuffer_substitute_fn board_schema late_row board_format =
     Inr [(''W12345'', AInt 0), (''AW'', AInt 0), (''OO'', AInt 0), (''DMU'', AInt 0),
          (''    '', AInt 0), (''2V41'', AInt 0), (''1158 '', AInt 0), (''1200 '', AInt 0),
          (''     '', AInt 0), ('' 2 '', AInt 3), ('' 1L'', AInt 5), (''    '', AInt 3),
          (''1201'' @ [CHR 0xBD], AInt 3), (''SWANSEA                       '', AInt 0),
          (''NEWPORT                       '', AInt 0)]"
  by code_simp

subsection \<open>Columns that do not resolve\<close>

lemma walk_schema_errors:
  "walk_schema inh cs path = Inl e \<Longrightarrow> e \<in> {KeyError, TypeError, AttributeError}"
proof (induction path arbitrary: inh cs)
  case Nil
  then show ?case by simp
next
  case (Cons level levels)
  show ?case
  proof (cases cs)
    case (STuple t)
    with Cons.prems show ?thesis by (simp add: inherited_defaults_def)
  next
    case (SDict kvs)
    with Cons.prems Cons.IH show ?thesis
      by (auto simp: inherited_defaults_def split: sum.splits option.splits schema.splits)
  qed
qed

lemma schema_index_errors: "schema_index cs i = Inl e \<Longrightarrow> e \<in> {KeyError, IndexError}"
  by (cases cs) (auto simp: list_index_def split: if_splits)

lemma resolve_header_errors:
  assumes "resolve_header sch column = Inl e"
  shows "e \<in> {KeyError, TypeError, AttributeError, IndexError}"
proof (cases "walk_schema [ANone, ANone, ANone, ANone] sch (split CHR ''/'' column)")
  case (Inl e')
  with assms have "e = e'" by (simp add: resolve_header_def py_bind_Inl)
  with walk_schema_errors [OF Inl] show ?thesis by auto
next
  case (Inr r)
  obtain inh cs where r: "r = (inh, cs)" by (cases r)
  from assms Inr r have
    "py_bind (schema_index cs 0) (\<lambda>name.
     py_bind (schema_index cs 1) (\<lambda>pad.
     py_bind (if 4 \<le> schema_len cs then schema_index cs 3 else Inr (AInt 0)) (\<lambda>color_scheme.
       Inr (attr_or name (inh ! 0), attr_or pad (inh ! 1),
            attr_or (attr_or color_scheme (inh ! 3)) (AInt 0))))) = Inl e"
    by (simp add: resolve_header_def py_bind_Inr)
  then show ?thesis
    by (auto simp: py_bind_def split: sum.splits if_splits dest: schema_index_errors)
qed

lemma header_text_errors: "header_text name pad = Inl e \<Longrightarrow> e = TypeError"
  by (auto simp: header_text_def split: attr.splits)

lemma header_cell_errors:
  assumes "header_cell sch column = Inl e"
  shows "e \<in> {KeyError, TypeError, AttributeError, IndexError}"
  using assms
  by (auto simp: header_cell_def py_bind_def split: sum.splits
        dest: resolve_header_errors header_text_errors)

lemma header_cell_unresolved:
  assumes "resolve_header sch column = Inl e0 \<or> resolve_header sch column = Inr (name, ANone, color)"
  shows "\<exists>e. header_cell sch column = Inl e"
  using assms
  by (auto simp: header_cell_def py_bind_def header_text_def split: attr.splits)

lemma header_cells_errors:
  "header_cells sch columns = Inl e \<Longrightarrow> e \<in> {KeyError, TypeError, AttributeError, IndexError}"
proof (induction columns)
  case Nil
  then show ?case by simp
next
  case (Cons c cs)
  then show ?case
    by (auto split: sum.splits dest: header_cell_errors)
qed

lemma header_cells_fail:
  "column \<in> set columns \<Longrightarrow> header_cell sch column = Inl e \<Longrightarrow> \<exists>e'. header_cells sch columns = Inl e'"
  by (induction columns) (auto split: sum.splits)

text \<open>
  C7, as the code has it. When a column of the format does not resolve to a leaf of
  the schema, or resolves to a leaf with no width, the rebuild raises KeyError,
  TypeError, AttributeError or IndexError and leaves no buffer, with any hook; and an
  iteration of the main loop whose refresh raises ends with that exception.
\<close>

theorem unresolved_column_raises:
  assumes "column \<in> set (format b)"
    and "resolve_header (schema (data b)) column = Inl e0
         \<or> resolve_header (schema (data b)) column = Inr (name, ANone, color)"
  shows "(\<exists>e. renew_with hook b = Inl e \<and> e \<in> {KeyError, TypeError, AttributeError, IndexError})
       \<and> (\<forall>e st. consider_refresh E t1 t2 (current_buffer st) = Inl e \<longrightarrow>
                 main_step E t1 t2 t3 t4 win_cols k st = Inl e)"
proof -
  from header_cell_unresolved [OF assms(2)] obtain e1 where
    "header_cell (schema (data b)) column = Inl e1" by blast
  from header_cells_fail [OF assms(1) this] obtain e where
    e: "header_cells (schema (data b)) (format b) = Inl e" by blast
  then have "renew_with hook b = Inl e" by (simp add: renew_with_def py_bind_Inl)
  with header_cells_errors [OF e] show ?thesis
    by (simp add: main_step_def py_bind_Inl)
qed

theorem unresolved_column_raises_witness:
  "''nope'' \<in> set (format (welcome_start\<lparr>format := [''nope'']\<rparr>))
   \<and> resolve_header (schema (data (welcome_start\<lparr>format := [''nope'']\<rparr>))) ''nope'' = Inl KeyError
   \<and> (\<exists>e. renew_with Buffer_substitute_fn (welcome_start\<lparr>format := [''nope'']\<rparr>) = Inl e
          \<and> e \<in> {KeyError, TypeError, AttributeError, IndexError})"
proof -
  have a: "''nope'' \<in> set (format (welcome_start\<lparr>format := [''nope'']\<rparr>))" by simp
  have b: "resolve_header (schema (data (welcome_start\<lparr>format := [''nope'']\<rparr>))) ''nope''
             = Inl KeyError" by code_simp
  from a b unresolved_column_raises [OF a disjI1 [OF b], of Buffer_substitute_fn]
  show ?thesis by blast
qed

text \<open>
  A text buffer over a column that the schema does not have ends in KeyError, and one
  over a leaf without a width in TypeError.
\<close>

theorem unresolved_column_counterexample:
  "TextBuffer_init 0 ''Welcome to BeryilliumSwallow'' welcome_data [''nope''] = Inl KeyError
   \<and> TextBuffer_init 0 ''Welcome to BeryilliumSwallow''
        \<lparr>schema = SDict [(''body'', STuple [AStr ''Body'', ANone])], rows = []\<rparr> [''body'']
       = Inl TypeError"
  by code_simp


end
